(* ===== verification/Prelude.thy ===== *)
theory Prelude
  imports Complex_Main "HOL-Library.Word"
begin

text \<open>
  Shared vocabulary of the development. Python exceptions become values of the
  datatype \<open>exc\<close>; a computation that may raise returns \<open>exc + 'a\<close>, with
  \<open>Inl\<close> the exception. \<open>sbind\<close> sequences two such computations the way
  consecutive Python statements are sequenced (the first exception aborts the rest),
  and \<open>smap\<close> is a list comprehension whose element expression may raise. The
  collection \<open>ret_iff\<close> holds the rules that characterise a successful result
  (an \<open>Inr\<close> of a computation that may raise, a \<open>Some\<close> of a validation); the
  proofs of the components unfold a successful run with \<open>simp add: ret_iff\<close>.
\<close>

named_theorems ret_iff "characterisations of a successful (Inr or Some) result"

type_synonym bytes = "8 word list"

text \<open>A file-system path; \<open>tempfile\<close> hands out a fresh one per call.\<close>

type_synonym path = nat

text \<open>
  The exceptions the model distinguishes: \<open>TranscriptionError\<close> is the class of
  \<^verbatim>\<open>src/app/transcribe.py\<close>; \<open>AttributeError\<close> and \<open>TypeError\<close> are raised by the
  builtins the code calls on engine output of the wrong shape; \<open>LibError\<close> wraps an
  exception raised inside a library (an \<open>OSError\<close> of the file system, a
  \<open>RuntimeError\<close> of the model, \<dots>), given by its class name and message. A
  library cannot raise the application's own \<open>TranscriptionError\<close>, and the type
  says so. The string is what \<open>str(e)\<close> prints.
\<close>

datatype lib_exc = LibExc string string

datatype exc =
    TranscriptionError string
  | AttributeError string
  | TypeError string
  | LibError lib_exc

primrec exc_str :: "exc \<Rightarrow> string" where
  "exc_str (TranscriptionError m) = m"
| "exc_str (AttributeError m) = m"
| "exc_str (TypeError m) = m"
| "exc_str (LibError l) = (case l of LibExc cls m \<Rightarrow> m)"

primrec is_transcription_error :: "exc \<Rightarrow> bool" where
  "is_transcription_error (TranscriptionError m) = True"
| "is_transcription_error (AttributeError m) = False"
| "is_transcription_error (TypeError m) = False"
| "is_transcription_error (LibError l) = False"

text \<open>A library call seen from the application: its exception wrapped.\<close>

definition lib :: "lib_exc + 'a \<Rightarrow> exc + 'a" where
  "lib r = (case r of Inl e \<Rightarrow> Inl (LibError e) | Inr x \<Rightarrow> Inr x)"

definition sbind :: "'e + 'a \<Rightarrow> ('a \<Rightarrow> 'e + 'b) \<Rightarrow> 'e + 'b" where
  "sbind m f = (case m of Inl e \<Rightarrow> Inl e | Inr x \<Rightarrow> f x)"

fun smap :: "('a \<Rightarrow> 'e + 'b) \<Rightarrow> 'a list \<Rightarrow> 'e + 'b list" where
  "smap f [] = Inr []"
| "smap f (x # xs) = sbind (f x) (\<lambda>y. sbind (smap f xs) (\<lambda>ys. Inr (y # ys)))"

text \<open>Decimal digits of a natural number, as \<open>%s\<close> prints it.\<close>

fun show_nat :: "nat \<Rightarrow> string" where
  "show_nat n = (if n < 10 then [char_of (48 + n)] else show_nat (n div 10) @ [char_of (48 + n mod 10)])"

text \<open>\<open>str(x)\<close> of an optional string, as \<open>%s\<close> formatting prints it.\<close>

definition py_str_opt :: "string option \<Rightarrow> string" where
  "py_str_opt s = (case s of None \<Rightarrow> ''None'' | Some x \<Rightarrow> x)"

declare show_nat.simps [simp del]

subsection \<open>Sequencing computations that may raise\<close>

lemma sbind_simps [simp]:
  "sbind (Inl e) f = Inl e"
  "sbind (Inr x) f = f x"
  by (simp_all add: sbind_def)

lemma sbind_eq_Inr [ret_iff]: "sbind m f = Inr y \<longleftrightarrow> (\<exists>x. m = Inr x \<and> f x = Inr y)"
  by (cases m) simp_all

lemma sbind_eq_Inl: "sbind m f = Inl e \<longleftrightarrow> m = Inl e \<or> (\<exists>x. m = Inr x \<and> f x = Inl e)"
  by (cases m) simp_all

lemma sbind_split: "P (sbind m f) \<longleftrightarrow> (\<forall>e. m = Inl e \<longrightarrow> P (Inl e)) \<and> (\<forall>x. m = Inr x \<longrightarrow> P (f x))"
  by (cases m) simp_all

lemma sbind_split_asm:
  "P (sbind m f) \<longleftrightarrow> \<not> ((\<exists>e. m = Inl e \<and> \<not> P (Inl e)) \<or> (\<exists>x. m = Inr x \<and> \<not> P (f x)))"
  by (cases m) simp_all

lemmas sbind_splits = sbind_split sbind_split_asm

lemma lib_simps [simp]:
  "lib (Inl e) = Inl (LibError e)"
  "lib (Inr x) = Inr x"
  by (simp_all add: lib_def)

lemma lib_eq_Inr [ret_iff]: "lib r = Inr x \<longleftrightarrow> r = Inr x"
  by (cases r) simp_all

lemma lib_eq_Inl: "lib r = Inl e \<longleftrightarrow> (\<exists>l. r = Inl l \<and> e = LibError l)"
  by (cases r) auto

lemma smap_eq_Inr [ret_iff]: "smap f xs = Inr ys \<longleftrightarrow> list_all2 (\<lambda>x y. f x = Inr y) xs ys"
proof (induction xs arbitrary: ys)
  case Nil
  then show ?case by auto
next
  case (Cons x xs)
  then show ?case
    by (cases ys) (auto simp: sbind_eq_Inr)
qed

lemma smap_map: "(\<And>x. x \<in> set xs \<Longrightarrow> f x = Inr (g x)) \<Longrightarrow> smap f xs = Inr (map g xs)"
  by (induction xs) simp_all

lemma smap_eq_Inl: "smap f xs = Inl e \<Longrightarrow> \<exists>x \<in> set xs. f x = Inl e"
  by (induction xs) (auto simp: sbind_eq_Inl)

lemma smap_Inl_of_member: "x \<in> set xs \<Longrightarrow> f x = Inl e \<Longrightarrow> \<exists>e'. smap f xs = Inl e'"
proof (induction xs)
  case Nil
  then show ?case by simp
next
  case (Cons y ys)
  then show ?case
    by (cases "f y") (auto split: sbind_splits sum.splits)
qed

lemma smap_length: "smap f xs = Inr ys \<Longrightarrow> length ys = length xs"
  by (simp add: smap_eq_Inr list_all2_lengthD)

lemma smap_Inr_member: "smap f xs = Inr ys \<Longrightarrow> y \<in> set ys \<Longrightarrow> \<exists>x \<in> set xs. f x = Inr y"
  by (induction xs arbitrary: ys) (auto simp: sbind_eq_Inr)

subsection \<open>Lists of optional values\<close>

lemma those_map_Some:
  "(\<And>x. x \<in> set xs \<Longrightarrow> \<exists>y. f x = Some y \<and> P y) \<Longrightarrow> \<exists>ys. those (map f xs) = Some ys \<and> (\<forall>y \<in> set ys. P y)"
proof (induction xs)
  case Nil
  then show ?case by simp
next
  case (Cons x xs)
  then obtain y ys where "f x = Some y" "P y" "those (map f xs) = Some ys" "\<forall>y \<in> set ys. P y"
    by (metis list.set_intros)
  then show ?case by auto
qed

lemma list_all2_those: "list_all2 (\<lambda>x y. f x = Some y) xs ys \<Longrightarrow> those (map f xs) = Some ys"
  by (induction rule: list_all2_induct) simp_all

end
