(* ===== verification/PyValue.thy ===== *)
theory PyValue
  imports Prelude
begin

text \<open>
  The Python values and builtins the service applies to the engine's output. The
  engine (\<^verbatim>\<open>whisper\<close>) returns a dynamically typed dictionary; the code reads it
  with \<open>dict.get\<close>, \<open>or\<close>, iteration, \<open>str.strip\<close> and \<open>round\<close>, each of which
  raises on a value of the wrong type. \<open>pyval\<close> is the JSON-like fragment of Python
  values: floats are their exact (dyadic) rational values, dictionaries are
  association lists with string keys, strings are lists of Latin-1 characters.
\<close>

datatype pyval =
    PNone
  | PBool bool
  | PInt int
  | PFloat rat
  | PStr string
  | PList "pyval list"
  | PDict "(string \<times> pyval) list"

text \<open>Truthiness, as \<open>x or y\<close> tests it.\<close>

fun py_truthy :: "pyval \<Rightarrow> bool" where
  "py_truthy PNone = False"
| "py_truthy (PBool b) = b"
| "py_truthy (PInt i) = (i \<noteq> 0)"
| "py_truthy (PFloat r) = (r \<noteq> 0)"
| "py_truthy (PStr s) = (s \<noteq> [])"
| "py_truthy (PList xs) = (xs \<noteq> [])"
| "py_truthy (PDict kvs) = (kvs \<noteq> [])"

definition py_or :: "pyval \<Rightarrow> pyval \<Rightarrow> pyval" where
  "py_or x y = (if py_truthy x then x else y)"

text \<open>\<open>d.get(k, default)\<close>: only a dictionary has the method.\<close>

fun py_get :: "pyval \<Rightarrow> string \<Rightarrow> pyval \<Rightarrow> exc + pyval" where
  "py_get (PDict kvs) k dflt = Inr (case map_of kvs k of None \<Rightarrow> dflt | Some v \<Rightarrow> v)"
| "py_get v k dflt = Inl (AttributeError ''object has no attribute get'')"

text \<open>
  \<open>for s in x\<close>: a list yields its items, a string its one-character strings, a
  dictionary its keys; any other value is not iterable.
\<close>

fun py_iter :: "pyval \<Rightarrow> exc + pyval list" where
  "py_iter (PList xs) = Inr xs"
| "py_iter (PStr s) = Inr (map (\<lambda>c. PStr [c]) s)"
| "py_iter (PDict kvs) = Inr (map (\<lambda>kv. PStr (fst kv)) kvs)"
| "py_iter v = Inl (TypeError ''object is not iterable'')"

text \<open>
  \<open>k in x\<close> for a string literal \<open>k\<close>: a key of a dictionary, an item of a list
  (a string equals only a string), a substring of a string; \<open>None\<close>, booleans and
  numbers are not containers.
\<close>

definition str_contains :: "string \<Rightarrow> string \<Rightarrow> bool" where
  "str_contains k t = list_ex (\<lambda>i. take (length k) (drop i t) = k) [0..<Suc (length t)]"

fun py_in_str :: "string \<Rightarrow> pyval \<Rightarrow> exc + bool" where
  "py_in_str k (PDict kvs) = Inr (k \<in> set (map fst kvs))"
| "py_in_str k (PList xs) = Inr (PStr k \<in> set xs)"
| "py_in_str k (PStr t) = Inr (str_contains k t)"
| "py_in_str k v = Inl (TypeError ''argument is not iterable'')"

text \<open>
  \<open>x.name\<close>, read as a value: the numbers have \<open>real\<close> and \<open>imag\<close>, the integers
  (\<open>bool\<close> among them) \<open>numerator\<close> and \<open>denominator\<close>; no JSON value has any other
  data attribute. (Method names are bound methods, not values of \<open>pyval\<close>; nothing
  in the repository reads one without calling it.)
\<close>

fun py_attr :: "pyval \<Rightarrow> string \<Rightarrow> exc + pyval" where
  "py_attr (PInt i) a =
     (if a = ''real'' \<or> a = ''numerator'' then Inr (PInt i) else if a = ''imag'' then Inr (PInt 0)
      else if a = ''denominator'' then Inr (PInt 1) else Inl (AttributeError (''object has no attribute '' @ a)))"
| "py_attr (PBool b) a =
     (if a = ''real'' \<or> a = ''numerator'' then Inr (PInt (if b then 1 else 0)) else if a = ''imag'' then Inr (PInt 0)
      else if a = ''denominator'' then Inr (PInt 1) else Inl (AttributeError (''object has no attribute '' @ a)))"
| "py_attr (PFloat r) a =
     (if a = ''real'' then Inr (PFloat r) else if a = ''imag'' then Inr (PFloat 0)
      else Inl (AttributeError (''object has no attribute '' @ a)))"
| "py_attr v a = Inl (AttributeError (''object has no attribute '' @ a))"

subsection \<open>\<open>str.strip()\<close>\<close>

text \<open>
  \<open>str.isspace\<close> on the code points 0--255: the ASCII controls 9--13 and 28--31,
  the space, NEL (133) and NO-BREAK SPACE (160).
\<close>

definition py_isspace :: "char \<Rightarrow> bool" where
  "py_isspace c =
     (let n = (of_char c :: nat)
      in (9 \<le> n \<and> n \<le> 13) \<or> (28 \<le> n \<and> n \<le> 31) \<or> n = 32 \<or> n = 133 \<or> n = 160)"

definition py_strip :: "string \<Rightarrow> string" where
  "py_strip s = rev (dropWhile py_isspace (rev (dropWhile py_isspace s)))"

text \<open>\<open>x.strip()\<close> on a value: only a string has the method.\<close>

fun py_strip_val :: "pyval \<Rightarrow> exc + string" where
  "py_strip_val (PStr s) = Inr (py_strip s)"
| "py_strip_val v = Inl (AttributeError ''object has no attribute strip'')"

subsection \<open>\<open>round(x, n)\<close>\<close>

text \<open>
  \<open>round\<close> of a float rounds the exact value half to even; \<open>round\<close> of an
  \<open>int\<close> (and of a \<open>bool\<close>, a subclass of \<open>int\<close>) with \<open>n \<ge> 0\<close> digits returns
  the integer unchanged; other values have no \<open>__round__\<close>.
\<close>

definition round_half_even :: "rat \<Rightarrow> int" where
  "round_half_even x =
     (let f = \<lfloor>x\<rfloor>; d = x - of_int f
      in if d < 1/2 then f else if 1/2 < d then f + 1 else if even f then f else f + 1)"

definition round_digits :: "nat \<Rightarrow> rat \<Rightarrow> rat" where
  "round_digits n x = of_int (round_half_even (x * 10 ^ n)) / 10 ^ n"

fun py_round :: "pyval \<Rightarrow> nat \<Rightarrow> exc + pyval" where
  "py_round (PFloat r) n = Inr (PFloat (round_digits n r))"
| "py_round (PInt i) n = Inr (PInt i)"
| "py_round (PBool b) n = Inr (PInt (if b then 1 else 0))"
| "py_round v n = Inl (TypeError ''type does not define __round__ method'')"

text \<open>The numeric value of a number, as JSON and comparisons read it.\<close>

fun py_num :: "pyval \<Rightarrow> rat option" where
  "py_num (PFloat r) = Some r"
| "py_num (PInt i) = Some (of_int i)"
| "py_num (PBool b) = Some (if b then 1 else 0)"
| "py_num v = None"

subsection \<open>Facts about the builtins\<close>

text \<open>Rounding half to even stays within half a unit and is monotone.\<close>

lemma round_half_even_cases:
  "round_half_even x = \<lfloor>x\<rfloor> \<or> round_half_even x = \<lfloor>x\<rfloor> + 1"
  by (auto simp: round_half_even_def Let_def)

lemma round_half_even_near: "\<bar>of_int (round_half_even x) - x\<bar> \<le> 1/2"
proof -
  have lo: "of_int \<lfloor>x\<rfloor> \<le> x" and hi: "x < of_int \<lfloor>x\<rfloor> + 1"
    using floor_correct [of x] by simp_all
  show ?thesis
    unfolding round_half_even_def Let_def
    by (simp add: abs_if) (use lo hi in linarith)
qed

lemma round_half_even_of_int [simp]: "round_half_even (of_int k) = k"
  by (simp add: round_half_even_def)

lemma round_half_even_mono:
  assumes "x \<le> y" shows "round_half_even x \<le> round_half_even y"
proof (cases "\<lfloor>x\<rfloor> < \<lfloor>y\<rfloor>")
  case True
  then show ?thesis using round_half_even_cases [of x] round_half_even_cases [of y] by auto
next
  case False
  with assms have eq: "\<lfloor>x\<rfloor> = \<lfloor>y\<rfloor>" by (meson floor_mono less_le)
  with assms have "x - of_int \<lfloor>x\<rfloor> \<le> y - of_int \<lfloor>y\<rfloor>" by simp
  with eq show ?thesis
    by (auto simp: round_half_even_def Let_def)
qed

lemma round_digits_mono: "x \<le> y \<Longrightarrow> round_digits n x \<le> round_digits n y"
  by (simp add: round_digits_def divide_right_mono round_half_even_mono)

lemma round_digits_grid: "round_digits n x = of_int (round_half_even (x * 10 ^ n)) / 10 ^ n"
  by (simp add: round_digits_def)

lemma round_digits_near: "\<bar>round_digits n x - x\<bar> \<le> 1 / (2 * 10 ^ n)"
proof -
  let ?k = "round_half_even (x * 10 ^ n)"
  have p: "(0::rat) < 10 ^ n" by simp
  have "round_digits n x - x = (of_int ?k - x * 10 ^ n) / 10 ^ n"
    using p by (simp add: round_digits_def field_simps)
  then have "\<bar>round_digits n x - x\<bar> = \<bar>of_int ?k - x * 10 ^ n\<bar> / 10 ^ n"
    by simp
  also have "\<dots> \<le> (1/2) / 10 ^ n"
    using round_half_even_near p by (rule divide_right_mono [OF _ less_imp_le])
  finally show ?thesis by simp
qed

lemma round_digits_idem: "round_digits n (round_digits n x) = round_digits n x"
  by (simp add: round_digits_def)


lemma round_digits_of_int [simp]: "round_digits n (of_int k) = of_int k"
proof -
  have "of_int k * (10::rat) ^ n = of_int (k * 10 ^ n)" by simp
  then have "round_half_even (of_int k * 10 ^ n) = k * 10 ^ n"
    by (simp only: round_half_even_of_int)
  then show ?thesis by (simp add: round_digits_def)
qed

lemma round_digits_one [simp]: "round_digits n 1 = 1"
  using round_digits_of_int [of n 1] by simp

lemma round_digits_zero [simp]: "round_digits n 0 = 0"
  using round_digits_of_int [of n 0] by simp

text \<open>
  \<open>round(v, n)\<close> succeeds exactly on numbers, and the number it returns is the
  value of \<open>v\<close> rounded to \<open>n\<close> decimals, whether \<open>v\<close> is an \<open>int\<close> or a
  \<open>float\<close>.
\<close>

lemma py_round_num:
  "py_round v n = Inr v' \<Longrightarrow> \<exists>x. py_num v = Some x \<and> py_num v' = Some (round_digits n x)"
  by (cases v) auto

lemma py_round_ok_iff: "(\<exists>v'. py_round v n = Inr v') \<longleftrightarrow> py_num v \<noteq> None"
  by (cases v) auto

text \<open>\<open>str.strip\<close> removes exactly the surrounding whitespace.\<close>

lemma py_strip_split:
  "dropWhile py_isspace s = py_strip s @ rev (takeWhile py_isspace (rev (dropWhile py_isspace s)))"
proof -
  let ?t = "dropWhile py_isspace s"
  have "rev ?t = takeWhile py_isspace (rev ?t) @ dropWhile py_isspace (rev ?t)" by simp
  then have "?t = rev (dropWhile py_isspace (rev ?t)) @ rev (takeWhile py_isspace (rev ?t))"
    by (metis rev_append rev_rev_ident)
  then show ?thesis by (simp add: py_strip_def)
qed

lemma py_strip_infix:
  "\<exists>a b. s = a @ py_strip s @ b \<and> (\<forall>c \<in> set a. py_isspace c) \<and> (\<forall>c \<in> set b. py_isspace c)"
proof (intro exI conjI)
  show "s = takeWhile py_isspace s @ py_strip s @ rev (takeWhile py_isspace (rev (dropWhile py_isspace s)))"
    using takeWhile_dropWhile_id [of py_isspace s] py_strip_split [of s] by simp
qed (auto dest: set_takeWhileD)

lemma py_strip_hd: "py_strip s = c # r \<Longrightarrow> \<not> py_isspace c"
proof -
  assume "py_strip s = c # r"
  then have d: "dropWhile py_isspace s = c # r @ rev (takeWhile py_isspace (rev (dropWhile py_isspace s)))"
    using py_strip_split [of s] by simp
  have "\<not> py_isspace (hd (dropWhile py_isspace s))"
    by (rule hd_dropWhile) (metis d list.distinct(1))
  moreover have "hd (dropWhile py_isspace s) = c"
    by (metis d list.sel(1))
  ultimately show ?thesis by simp
qed

lemma py_strip_last: "py_strip s = r @ [c] \<Longrightarrow> \<not> py_isspace c"
proof -
  assume "py_strip s = r @ [c]"
  then have "dropWhile py_isspace (rev (dropWhile py_isspace s)) = c # rev r"
    by (simp add: py_strip_def rev_swap)
  then show ?thesis
    using hd_dropWhile [of py_isspace "rev (dropWhile py_isspace s)"] by simp
qed

lemma py_strip_idem: "py_strip (py_strip s) = py_strip s"
proof -
  have front: "dropWhile py_isspace (py_strip s) = py_strip s"
  proof (cases "py_strip s")
    case (Cons c r)
    then show ?thesis using py_strip_hd by simp
  qed simp
  have "py_strip (py_strip s) = rev (dropWhile py_isspace (rev (py_strip s)))"
    by (simp only: py_strip_def [of "py_strip s"] front)
  also have "rev (py_strip s) = dropWhile py_isspace (rev (dropWhile py_isspace s))"
    by (simp add: py_strip_def)
  finally show ?thesis by (simp add: py_strip_def)
qed

lemma all_set_dropWhile: "(\<forall>x \<in> set (dropWhile P xs). P x) \<longleftrightarrow> (\<forall>x \<in> set xs. P x)"
  by (induction xs) auto

lemma py_strip_Nil_iff: "py_strip s = [] \<longleftrightarrow> (\<forall>c \<in> set s. py_isspace c)"
  by (simp add: py_strip_def all_set_dropWhile)

lemma py_strip_val_Inr [ret_iff]: "py_strip_val v = Inr s \<longleftrightarrow> (\<exists>s0. v = PStr s0 \<and> s = py_strip s0)"
  by (cases v) auto

end
