(* ===== verification/Runtime.thy ===== *)
theory Runtime
  imports PyValue
begin

text \<open>
  The world the service runs in, and the interface between the service and the
  libraries it calls. The service's own code (\<^verbatim>\<open>src/app\<close>) is modelled
  definition by definition in \<open>Transcriber\<close> and \<open>Service\<close>; what it calls is not
  part of the repository and enters the model as the fields of an environment record
  \<open>env\<close>: \<^verbatim>\<open>whisper.load_model\<close> and \<^verbatim>\<open>model.transcribe\<close>, \<^verbatim>\<open>AudioSegment.from_file\<close>,
  \<^verbatim>\<open>set_channels\<close>, \<^verbatim>\<open>set_frame_rate\<close> and \<^verbatim>\<open>export\<close> of pydub,
  \<^verbatim>\<open>tempfile.NamedTemporaryFile\<close>, \<^verbatim>\<open>os.unlink\<close> and \<^verbatim>\<open>os.environ\<close>. Each
  library call either returns or raises, and which one it does is the environment's
  choice: every theorem holds for every environment unless it names a condition on it.
  The world that the code changes is a record: the temporary-file directory (a map from
  paths to contents), the counter from which \<open>tempfile\<close> draws fresh names, and the
  log.
\<close>

subsection \<open>Audio and files\<close>

text \<open>A decoded \<^verbatim>\<open>AudioSegment\<close>: its format and its raw PCM data.\<close>

record audio =
  channels :: nat
  frame_rate :: nat
  sample_width :: nat
  pcm :: bytes

text \<open>
  A temporary file as the code sees it: just created by \<open>NamedTemporaryFile\<close>
  (empty), or holding the WAV rendering of an audio segment.
\<close>

datatype fcontent = EmptyFile | WavFile audio

subsection \<open>The log\<close>

datatype level = DEBUG | INFO | WARNING | ERROR

text \<open>The numeric values of the \<^verbatim>\<open>logging\<close> levels, which order them.\<close>

primrec level_num :: "level \<Rightarrow> nat" where
  "level_num DEBUG = 10"
| "level_num INFO = 20"
| "level_num WARNING = 30"
| "level_num ERROR = 40"

instantiation level :: linorder
begin

definition less_eq_level :: "level \<Rightarrow> level \<Rightarrow> bool" where
  "less_eq_level a b \<longleftrightarrow> level_num a \<le> level_num b"

definition less_level :: "level \<Rightarrow> level \<Rightarrow> bool" where
  "less_level a b \<longleftrightarrow> level_num a < level_num b"

instance
proof
  fix x y z :: level
  show "(x < y) = (x \<le> y \<and> \<not> y \<le> x)" by (auto simp: less_eq_level_def less_level_def)
  show "x \<le> x" by (simp add: less_eq_level_def)
  show "x \<le> y \<Longrightarrow> y \<le> z \<Longrightarrow> x \<le> z" by (simp add: less_eq_level_def)
  show "x \<le> y \<Longrightarrow> y \<le> x \<Longrightarrow> x = y" by (cases x; cases y) (simp_all add: less_eq_level_def)
  show "x \<le> y \<or> y \<le> x" by (auto simp: less_eq_level_def)
qed

end

text \<open>
  One record of the \<^verbatim>\<open>logging\<close> module: the logger's name, the level, the
  formatted message and, for \<open>logger.exception\<close>, the exception being handled.
\<close>

datatype log_entry = LogEntry string level string "exc option"

primrec entry_level :: "log_entry \<Rightarrow> level" where
  "entry_level (LogEntry lg lv msg ex) = lv"

subsection \<open>The world\<close>

record world =
  fs :: "path \<rightharpoonup> fcontent"
  next_tmp :: path
  log :: "log_entry list"

definition log_append :: "string \<Rightarrow> level \<Rightarrow> string \<Rightarrow> exc option \<Rightarrow> 'a world_scheme \<Rightarrow> 'a world_scheme" where
  "log_append lg lv msg ex w = w\<lparr>log := log w @ [LogEntry lg lv msg ex]\<rparr>"

text \<open>
  Fresh names: no file exists at or beyond the counter, so the name
  \<open>NamedTemporaryFile\<close> hands out next is not in use.
\<close>

definition tmp_fresh :: "'a world_scheme \<Rightarrow> bool" where
  "tmp_fresh w \<longleftrightarrow> (\<forall>p. next_tmp w \<le> p \<longrightarrow> fs w p = None)"

subsection \<open>The libraries\<close>

text \<open>
  \<open>'m\<close> is the type of a loaded whisper model. \<open>run_model env m c\<close> is
  \<open>m.transcribe(path)\<close> when the file at \<open>path\<close> holds \<open>c\<close> (\<open>None\<close> if there
  is no file). \<open>tmp_error\<close>, \<open>export_error\<close> and \<open>unlink_error\<close> say whether creating,
  writing or deleting the file at a path raises.
\<close>

record 'm env =
  getenv :: "string \<Rightarrow> string option"
  load_model :: "string \<Rightarrow> lib_exc + 'm"
  from_file :: "bytes \<Rightarrow> lib_exc + audio"
  set_channels :: "nat \<Rightarrow> audio \<Rightarrow> lib_exc + audio"
  set_frame_rate :: "nat \<Rightarrow> audio \<Rightarrow> lib_exc + audio"
  tmp_error :: "path \<Rightarrow> lib_exc option"
  export_error :: "path \<Rightarrow> audio \<Rightarrow> lib_exc option"
  run_model :: "'m \<Rightarrow> fcontent option \<Rightarrow> lib_exc + pyval"
  unlink_error :: "path \<Rightarrow> lib_exc option"

text \<open>
  pydub's documented contract for the two conversions: when they return, the segment
  has the requested number of channels (resp.\ frame rate) and keeps the other
  parameter.
\<close>

definition pydub_contract :: "'m env \<Rightarrow> bool" where
  "pydub_contract env \<longleftrightarrow>
     (\<forall>n a a'. set_channels env n a = Inr a' \<longrightarrow> channels a' = n \<and> frame_rate a' = frame_rate a) \<and>
     (\<forall>n a a'. set_frame_rate env n a = Inr a' \<longrightarrow> frame_rate a' = n \<and> channels a' = channels a)"

text \<open>An environment in which the file system never fails.\<close>

definition fs_reliable :: "'m env \<Rightarrow> bool" where
  "fs_reliable env \<longleftrightarrow>
     (\<forall>p. tmp_error env p = None) \<and> (\<forall>p a. export_error env p a = None) \<and> (\<forall>p. unlink_error env p = None)"

subsection \<open>Facts about the world\<close>

lemma log_append_fs [simp]: "fs (log_append lg lv msg ex w) = fs w"
  by (simp add: log_append_def)

lemma log_append_next_tmp [simp]: "next_tmp (log_append lg lv msg ex w) = next_tmp w"
  by (simp add: log_append_def)

lemma log_append_log [simp]: "log (log_append lg lv msg ex w) = log w @ [LogEntry lg lv msg ex]"
  by (simp add: log_append_def)

lemma log_append_more [simp]: "world.more (log_append lg lv msg ex w) = world.more w"
  by (simp add: log_append_def)

lemma tmp_fresh_next [simp]: "tmp_fresh w \<Longrightarrow> fs w (next_tmp w) = None"
  by (simp add: tmp_fresh_def)

lemma tmp_fresh_log_append [simp]: "tmp_fresh (log_append lg lv msg ex w) = tmp_fresh w"
  by (simp add: tmp_fresh_def)

lemma tmp_fresh_alloc:
  "tmp_fresh w \<Longrightarrow> tmp_fresh (w\<lparr>fs := (fs w)(next_tmp w \<mapsto> c), next_tmp := Suc (next_tmp w)\<rparr>)"
  by (simp add: tmp_fresh_def)

lemma tmp_fresh_delete: "tmp_fresh w \<Longrightarrow> tmp_fresh (w\<lparr>fs := (fs w)(p := None)\<rparr>)"
  by (simp add: tmp_fresh_def)

lemma tmp_fresh_update_below:
  "tmp_fresh w \<Longrightarrow> p < next_tmp w \<Longrightarrow> tmp_fresh (w\<lparr>fs := (fs w)(p \<mapsto> c)\<rparr>)"
  by (simp add: tmp_fresh_def)

end
