(* ===== verification/Schemas.thy ===== *)
theory Schemas
  imports PyValue
begin

text \<open>
  The response models of \<^verbatim>\<open>src/app/schemas.py\<close>, and what validating a value against
  them (as pydantic does for a \<^verbatim>\<open>BaseModel\<close> subclass) accepts. A \<open>float\<close> field
  accepts an \<open>int\<close>, a \<open>float\<close> or a \<open>bool\<close>; a \<open>str\<close> field a string only; an
  \<open>Optional[str]\<close> field a string or \<open>None\<close>, and it must be present; a \<open>List\<close> field
  a list whose items all validate; keys the model does not declare are ignored.
  \<open>/transcribe\<close> declares \<open>TranscriptionResponse\<close> as its response model, but it
  returns a \<^verbatim>\<open>JSONResponse\<close>, which FastAPI sends without validating it; the
  functions below say which bodies conform to the declared contract.
\<close>

record Segment =
  seg_start :: rat
  seg_end :: rat
  seg_text :: string

record TranscriptionResponse =
  resp_text :: string
  resp_language :: "string option"
  resp_segments :: "Segment list"
  resp_model :: string

fun pyd_float :: "pyval \<Rightarrow> rat option" where
  "pyd_float (PFloat r) = Some r"
| "pyd_float (PInt i) = Some (of_int i)"
| "pyd_float (PBool b) = Some (if b then 1 else 0)"
| "pyd_float v = None"

fun pyd_str :: "pyval \<Rightarrow> string option" where
  "pyd_str (PStr s) = Some s"
| "pyd_str v = None"

fun pyd_opt_str :: "pyval \<Rightarrow> string option option" where
  "pyd_opt_str PNone = Some None"
| "pyd_opt_str (PStr s) = Some (Some s)"
| "pyd_opt_str v = None"

definition pyd_field :: "(string \<times> pyval) list \<Rightarrow> string \<Rightarrow> (pyval \<Rightarrow> 'b option) \<Rightarrow> 'b option" where
  "pyd_field kvs k f = Option.bind (map_of kvs k) f"

fun validate_segment :: "pyval \<Rightarrow> Segment option" where
  "validate_segment (PDict kvs) =
     Option.bind (pyd_field kvs ''start'' pyd_float) (\<lambda>st.
     Option.bind (pyd_field kvs ''end'' pyd_float) (\<lambda>en.
     Option.bind (pyd_field kvs ''text'' pyd_str) (\<lambda>tx.
     Some \<lparr>seg_start = st, seg_end = en, seg_text = tx\<rparr>)))"
| "validate_segment v = None"

fun pyd_list :: "(pyval \<Rightarrow> 'b option) \<Rightarrow> pyval \<Rightarrow> 'b list option" where
  "pyd_list f (PList xs) = those (map f xs)"
| "pyd_list f v = None"

fun validate_response :: "pyval \<Rightarrow> TranscriptionResponse option" where
  "validate_response (PDict kvs) =
     Option.bind (pyd_field kvs ''text'' pyd_str) (\<lambda>tx.
     Option.bind (pyd_field kvs ''language'' pyd_opt_str) (\<lambda>lang.
     Option.bind (pyd_field kvs ''segments'' (pyd_list validate_segment)) (\<lambda>segs.
     Option.bind (pyd_field kvs ''model'' pyd_str) (\<lambda>m.
     Some \<lparr>resp_text = tx, resp_language = lang, resp_segments = segs, resp_model = m\<rparr>))))"
| "validate_response v = None"

text \<open>
  The timing discipline the spec expects of a transcript: every segment starts no later
  than it ends, and ends no later than the next one starts.
\<close>

definition well_timed :: "Segment list \<Rightarrow> bool" where
  "well_timed segs \<longleftrightarrow>
     (\<forall>s \<in> set segs. seg_start s \<le> seg_end s) \<and> sorted_wrt (\<lambda>a b. seg_end a \<le> seg_start b) segs"

text \<open>A value given to millisecond precision, and a string with no surrounding whitespace.\<close>

definition on_grid :: "nat \<Rightarrow> rat \<Rightarrow> bool" where
  "on_grid n x \<longleftrightarrow> (\<exists>k. x = of_int k / 10 ^ n)"

definition trimmed :: "string \<Rightarrow> bool" where
  "trimmed s \<longleftrightarrow> py_strip s = s"

subsection \<open>Facts about validation\<close>

lemma pyd_field_Some [ret_iff]:
  "pyd_field kvs k f = Some y \<longleftrightarrow> (\<exists>v. map_of kvs k = Some v \<and> f v = Some y)"
  by (simp add: pyd_field_def split: Option.bind_splits)

lemma pyd_list_Some [ret_iff]:
  "pyd_list f (PList xs) = Some ys \<longleftrightarrow> list_all2 (\<lambda>x y. f x = Some y) xs ys"
proof (induction xs arbitrary: ys)
  case Nil
  then show ?case by auto
next
  case (Cons x xs)
  then show ?case
    by (cases ys) (auto split: option.splits)
qed

lemma validate_segment_Some:
  "validate_segment v = Some s \<longleftrightarrow>
     (\<exists>kvs st en tx. v = PDict kvs \<and> pyd_field kvs ''start'' pyd_float = Some st \<and>
        pyd_field kvs ''end'' pyd_float = Some en \<and> pyd_field kvs ''text'' pyd_str = Some tx \<and>
        s = \<lparr>seg_start = st, seg_end = en, seg_text = tx\<rparr>)"
  by (cases v) (auto split: Option.bind_splits)

lemma pyd_float_py_num: "pyd_float v = py_num v"
  by (cases v) simp_all

lemma trimmed_py_strip [simp]: "trimmed (py_strip s)"
  by (simp add: trimmed_def py_strip_idem)

lemma on_grid_round_digits [simp]: "on_grid n (round_digits n x)"
  by (auto simp: on_grid_def round_digits_def)

lemma trimmed_no_edge_space:
  "trimmed s \<Longrightarrow> s = c # r \<or> s = r @ [c] \<Longrightarrow> \<not> py_isspace c"
  unfolding trimmed_def by (metis py_strip_hd py_strip_last)

lemma py_round_pyd_float:
  "py_round v n = Inr v' \<Longrightarrow> \<exists>x. pyd_float v = Some x \<and> pyd_float v' = Some (round_digits n x)"
  using py_round_num [of v n v'] by (simp add: pyd_float_py_num)

lemma py_round_of_pyd_float:
  "pyd_float v = Some x \<Longrightarrow> \<exists>v'. py_round v n = Inr v' \<and> pyd_float v' = Some (round_digits n x)"
  by (cases v) auto

end
