(* ===== verification/Transcriber.thy ===== *)
theory Transcriber
  imports Runtime Schemas
begin

text \<open>
  The class \<^verbatim>\<open>Transcriber\<close> of \<^verbatim>\<open>src/app/transcribe.py\<close>: loading the model
  (\<open>Transcriber_init\<close>, the constructor), normalising the upload to a 16 kHz mono WAV
  temporary file (\<open>ensure_wav\<close>, the method \<^verbatim>\<open>_ensure_wav\<close>), and transcribing it
  (\<open>transcribe_bytes\<close>), whose reshaping of the engine's result is \<open>shape_result\<close>
  with \<open>shape_segment\<close> for one segment. Every method takes the world and returns
  the world it leaves; a raised exception is an \<open>Inl\<close> result.
\<close>

record 'm transcriber =
  model_name :: string
  model :: 'm
  ready :: bool

text \<open>
  \<^verbatim>\<open>Transcriber(model_name, device)\<close>. The device is computed (\<^verbatim>\<open>device or
  os.environ.get("WHISPER_DEVICE")\<close>) and then not used: the call that would pass it
  is commented out. When loading fails the constructor sets \<^verbatim>\<open>self.ready = False\<close>
  and re-raises, so no object is returned and that assignment is not observable.
\<close>

definition Transcriber_init ::
  "'m env \<Rightarrow> string \<Rightarrow> string option \<Rightarrow> 'a world_scheme \<Rightarrow> (exc + 'm transcriber) \<times> 'a world_scheme" where
  "Transcriber_init env name device w =
     (let device' = (case device of Some d \<Rightarrow> if d \<noteq> [] then Some d else getenv env ''WHISPER_DEVICE''
                                   | None \<Rightarrow> getenv env ''WHISPER_DEVICE'');
          w1 = log_append ''app.transcribe'' INFO (''Loading whisper model='' @ name) None w
      in case lib (load_model env name) of
           Inr m \<Rightarrow> (Inr \<lparr>model_name = name, model = m, ready = True\<rparr>, w1)
         | Inl e \<Rightarrow> (Inl e, log_append ''app.transcribe'' ERROR ''Failed to load whisper model'' (Some e) w1))"

text \<open>Line 49: \<^verbatim>\<open>audio.set_channels(1).set_frame_rate(16000)\<close>.\<close>

definition to_mono_16k :: "'m env \<Rightarrow> audio \<Rightarrow> exc + audio" where
  "to_mono_16k env a = sbind (lib (set_channels env 1 a)) (\<lambda>a1. lib (set_frame_rate env 16000 a1))"

text \<open>
  \<^verbatim>\<open>_ensure_wav(data)\<close>: decode (a decoding failure becomes a \<open>TranscriptionError\<close>),
  convert to one channel and 16000 Hz (failures propagate unchanged), create a
  temporary file with \<^verbatim>\<open>delete=False\<close>, export the audio into it and return its
  path. An exception of \<open>export\<close> propagates with the file left behind.
\<close>

definition ensure_wav :: "'m env \<Rightarrow> bytes \<Rightarrow> 'a world_scheme \<Rightarrow> (exc + path) \<times> 'a world_scheme" where
  "ensure_wav env data w =
     (case lib (from_file env data) of
        Inl e \<Rightarrow> (Inl (TranscriptionError ''Unsupported or corrupt audio format''),
                  log_append ''app.transcribe'' ERROR ''Unsupported or corrupt audio format'' (Some e) w)
      | Inr a \<Rightarrow>
          (case to_mono_16k env a of
             Inl e \<Rightarrow> (Inl e, w)
           | Inr a' \<Rightarrow>
               (let p = next_tmp w in
                case tmp_error env p of
                  Some e \<Rightarrow> (Inl (LibError e), w)
                | None \<Rightarrow>
                    (let w1 = w\<lparr>fs := (fs w)(p \<mapsto> EmptyFile), next_tmp := Suc p\<rparr> in
                     case export_error env p a' of
                       Some e \<Rightarrow> (Inl (LibError e), w1)
                     | None \<Rightarrow>
                         (Inr p, log_append ''app.transcribe'' DEBUG (''Converted audio to wav: '' @ show_nat p) None
                                   (w1\<lparr>fs := (fs w1)(p \<mapsto> WavFile a')\<rparr>))))))"

text \<open>One item of the comprehension of line 68.\<close>

definition shape_segment :: "pyval \<Rightarrow> exc + pyval" where
  "shape_segment s =
     sbind (sbind (py_get s ''start'' (PFloat 0)) (\<lambda>v. py_round v 3)) (\<lambda>st.
     sbind (sbind (py_get s ''end'' (PFloat 0)) (\<lambda>v. py_round v 3)) (\<lambda>en.
     sbind (sbind (py_get s ''text'' (PStr [])) py_strip_val) (\<lambda>tx.
     Inr (PDict [(''start'', st), (''end'', en), (''text'', PStr tx)]))))"

text \<open>
  The body of the \<^verbatim>\<open>try\<close> of \<^verbatim>\<open>transcribe_bytes\<close> after the engine returned
  \<open>result\<close> (lines 62--73), in the order Python evaluates it.
\<close>

definition shape_result :: "string \<Rightarrow> pyval \<Rightarrow> exc + pyval" where
  "shape_result name result =
     sbind (sbind (py_get result ''text'' (PStr [])) py_strip_val) (\<lambda>text.
     sbind (py_get result ''segments'' PNone) (\<lambda>segs0.
     (let segments = py_or segs0 (PList []) in
      sbind (py_get result ''language'' PNone) (\<lambda>lang.
      sbind (py_iter segments) (\<lambda>items.
      sbind (smap shape_segment items) (\<lambda>segs.
      Inr (PDict [(''text'', PStr text), (''language'', lang), (''segments'', PList segs),
                  (''model'', PStr name)])))))))"

text \<open>The \<^verbatim>\<open>finally\<close> clause: \<^verbatim>\<open>os.unlink\<close>, any exception of it swallowed.\<close>

definition unlink_tmp :: "'m env \<Rightarrow> path \<Rightarrow> 'a world_scheme \<Rightarrow> 'a world_scheme" where
  "unlink_tmp env p w = (case unlink_error env p of None \<Rightarrow> w\<lparr>fs := (fs w)(p := None)\<rparr> | Some e \<Rightarrow> w)"

text \<open>
  \<^verbatim>\<open>transcribe_bytes(data, filename)\<close>: \<^verbatim>\<open>_ensure_wav\<close> runs outside the
  \<^verbatim>\<open>try\<close>, so its exceptions propagate as they are; any exception of the engine or
  of the reshaping is logged and replaced by \<open>TranscriptionError("Transcription
  failed")\<close>; the \<^verbatim>\<open>finally\<close> clause deletes the file after the handler has run.
  The file name is not used.
\<close>

definition transcribe_bytes ::
  "'m env \<Rightarrow> 'm transcriber \<Rightarrow> bytes \<Rightarrow> string option \<Rightarrow> 'a world_scheme \<Rightarrow> (exc + pyval) \<times> 'a world_scheme" where
  "transcribe_bytes env t data filename w =
     (case ensure_wav env data w of
        (Inl e, w1) \<Rightarrow> (Inl e, w1)
      | (Inr p, w1) \<Rightarrow>
          (let (r, w2) =
             (case sbind (lib (run_model env (model t) (fs w1 p))) (shape_result (model_name t)) of
                Inr resp \<Rightarrow> (Inr resp, w1)
              | Inl e \<Rightarrow> (Inl (TranscriptionError ''Transcription failed''),
                         log_append ''app.transcribe'' ERROR ''Transcription engine error'' (Some e) w1))
           in (r, unlink_tmp env p w2)))"


text \<open>
  The spec-level reading of the reshaping of one segment: times rounded to the
  millisecond, text stripped.
\<close>

definition round_seg :: "Segment \<Rightarrow> Segment" where
  "round_seg a = \<lparr>seg_start = round_digits 3 (seg_start a), seg_end = round_digits 3 (seg_end a),
                  seg_text = py_strip (seg_text a)\<rparr>"

subsection \<open>Normalisation: the five branches of \<open>ensure_wav\<close>\<close>

lemma ensure_wav_decode_error:
  "from_file env data = Inl l \<Longrightarrow>
   ensure_wav env data w =
     (Inl (TranscriptionError ''Unsupported or corrupt audio format''),
      log_append ''app.transcribe'' ERROR ''Unsupported or corrupt audio format'' (Some (LibError l)) w)"
  by (simp add: ensure_wav_def)

lemma ensure_wav_convert_error:
  "from_file env data = Inr a \<Longrightarrow> to_mono_16k env a = Inl e \<Longrightarrow> ensure_wav env data w = (Inl e, w)"
  by (simp add: ensure_wav_def)

lemma ensure_wav_tmp_error:
  "from_file env data = Inr a \<Longrightarrow> to_mono_16k env a = Inr a' \<Longrightarrow> tmp_error env (next_tmp w) = Some l \<Longrightarrow>
   ensure_wav env data w = (Inl (LibError l), w)"
  by (simp add: ensure_wav_def)

lemma ensure_wav_export_error:
  "from_file env data = Inr a \<Longrightarrow> to_mono_16k env a = Inr a' \<Longrightarrow> tmp_error env (next_tmp w) = None \<Longrightarrow>
   export_error env (next_tmp w) a' = Some l \<Longrightarrow>
   ensure_wav env data w =
     (Inl (LibError l), w\<lparr>fs := (fs w)(next_tmp w \<mapsto> EmptyFile), next_tmp := Suc (next_tmp w)\<rparr>)"
  by (simp add: ensure_wav_def Let_def)

lemma ensure_wav_ok:
  "from_file env data = Inr a \<Longrightarrow> to_mono_16k env a = Inr a' \<Longrightarrow> tmp_error env (next_tmp w) = None \<Longrightarrow>
   export_error env (next_tmp w) a' = None \<Longrightarrow>
   ensure_wav env data w =
     (Inr (next_tmp w),
      log_append ''app.transcribe'' DEBUG (''Converted audio to wav: '' @ show_nat (next_tmp w)) None
        (w\<lparr>fs := (fs w)(next_tmp w \<mapsto> WavFile a'), next_tmp := Suc (next_tmp w)\<rparr>))"
  by (simp add: ensure_wav_def Let_def)

lemmas ensure_wav_branches =
  ensure_wav_decode_error ensure_wav_convert_error ensure_wav_tmp_error
  ensure_wav_export_error ensure_wav_ok

text \<open>Every run of \<open>ensure_wav\<close> takes exactly one of the five branches.\<close>

lemma ensure_wav_cases:
  obtains (decode) l where "from_file env data = Inl l"
  | (convert) a e where "from_file env data = Inr a" "to_mono_16k env a = Inl e"
  | (tmp) a a' l where "from_file env data = Inr a" "to_mono_16k env a = Inr a'"
      "tmp_error env (next_tmp w) = Some l"
  | (export) a a' l where "from_file env data = Inr a" "to_mono_16k env a = Inr a'"
      "tmp_error env (next_tmp w) = None" "export_error env (next_tmp w) a' = Some l"
  | (ok) a a' where "from_file env data = Inr a" "to_mono_16k env a = Inr a'"
      "tmp_error env (next_tmp w) = None" "export_error env (next_tmp w) a' = None"
proof (cases "from_file env data")
  case (Inl l)
  then show ?thesis by (rule decode)
next
  case (Inr a)
  show ?thesis
  proof (cases "to_mono_16k env a")
    case (Inl e)
    with Inr show ?thesis by (rule convert)
  next
    case (Inr a')
    with \<open>from_file env data = Inr a\<close> show ?thesis
      by (cases "tmp_error env (next_tmp w)"; cases "export_error env (next_tmp w) a'")
         (auto intro: tmp export ok)
  qed
qed

lemma ensure_wav_Inr:
  assumes "ensure_wav env data w = (Inr p, w')"
  shows "\<exists>a a'. from_file env data = Inr a \<and> to_mono_16k env a = Inr a' \<and> p = next_tmp w \<and>
           fs w' = (fs w)(p \<mapsto> WavFile a') \<and> next_tmp w' = Suc p"
  using assms by (cases rule: ensure_wav_cases [where env = env and data = data and w = w]) (auto simp: ensure_wav_branches)

lemma ensure_wav_tmp_fresh: "tmp_fresh w \<Longrightarrow> tmp_fresh (snd (ensure_wav env data w))"
  by (cases rule: ensure_wav_cases [where env = env and data = data and w = w]) (simp_all add: ensure_wav_branches tmp_fresh_alloc)

lemma to_mono_16k_format:
  "pydub_contract env \<Longrightarrow> to_mono_16k env a = Inr a' \<Longrightarrow> channels a' = 1 \<and> frame_rate a' = 16000"
  by (auto simp: to_mono_16k_def pydub_contract_def ret_iff)

subsection \<open>\<open>transcribe_bytes\<close>: results and the temporary file\<close>


lemma transcribe_bytes_wav_error:
  "ensure_wav env data w = (Inl e, w1) \<Longrightarrow> transcribe_bytes env t data fn w = (Inl e, w1)"
  by (simp add: transcribe_bytes_def)

lemma transcribe_bytes_after_wav:
  "ensure_wav env data w = (Inr p, w1) \<Longrightarrow>
   transcribe_bytes env t data fn w =
     (case sbind (lib (run_model env (model t) (fs w1 p))) (shape_result (model_name t)) of
        Inr resp \<Rightarrow> (Inr resp, unlink_tmp env p w1)
      | Inl e \<Rightarrow> (Inl (TranscriptionError ''Transcription failed''),
                 unlink_tmp env p (log_append ''app.transcribe'' ERROR ''Transcription engine error'' (Some e) w1)))"
  by (simp add: transcribe_bytes_def split: sum.splits)

lemma unlink_tmp_fs:
  "fs (unlink_tmp env p w) = (case unlink_error env p of None \<Rightarrow> (fs w)(p := None) | Some e \<Rightarrow> fs w)"
  by (simp add: unlink_tmp_def split: option.splits)

lemma unlink_tmp_next_tmp [simp]: "next_tmp (unlink_tmp env p w) = next_tmp w"
  by (simp add: unlink_tmp_def split: option.splits)

lemma unlink_tmp_log [simp]: "log (unlink_tmp env p w) = log w"
  by (simp add: unlink_tmp_def split: option.splits)

lemma unlink_tmp_log_append [simp]:
  "unlink_tmp env p (log_append lg lv msg ex w) = log_append lg lv msg ex (unlink_tmp env p w)"
  by (simp add: unlink_tmp_def log_append_def split: option.splits)

lemma unlink_tmp_tmp_fresh: "tmp_fresh w \<Longrightarrow> tmp_fresh (unlink_tmp env p w)"
  by (simp add: unlink_tmp_def tmp_fresh_delete split: option.splits)

text \<open>What \<open>transcribe_bytes\<close> leaves in the temporary directory, on every path.\<close>

lemma transcribe_bytes_fs:
  "fs (snd (transcribe_bytes env t data fn w)) =
     (case ensure_wav env data w of
        (Inl e, w1) \<Rightarrow> fs w1
      | (Inr p, w1) \<Rightarrow> (case unlink_error env p of None \<Rightarrow> (fs w1)(p := None) | Some e \<Rightarrow> fs w1))"
  by (auto simp: transcribe_bytes_def unlink_tmp_fs split: sum.splits prod.splits option.splits)

lemma transcribe_bytes_tmp_fresh: "tmp_fresh w \<Longrightarrow> tmp_fresh (snd (transcribe_bytes env t data fn w))"
  using ensure_wav_tmp_fresh [of w env data]
  by (auto simp: transcribe_bytes_def unlink_tmp_tmp_fresh split: sum.splits prod.splits)

text \<open>
  C8. Cleanup of the temporary file: when the file system neither fails to write nor
  to delete the file, \<open>transcribe_bytes\<close> leaves the temporary directory as it found
  it, on every path (decoding, conversion or engine failure, malformed engine output,
  success).
\<close>

lemma no_leak:
  assumes fresh: "tmp_fresh w"
    and exp: "\<forall>a. export_error env (next_tmp w) a = None"
    and unl: "unlink_error env (next_tmp w) = None"
  shows "fs (snd (transcribe_bytes env t data fn w)) = fs w"
proof (cases rule: ensure_wav_cases [where env = env and data = data and w = w])
  case (ok a a')
  with fresh unl show ?thesis
    by (simp add: transcribe_bytes_fs ensure_wav_ok fun_upd_idem)
next
  case (export a a' l)
  with exp show ?thesis by simp
qed (simp_all add: transcribe_bytes_fs ensure_wav_branches)

text \<open>
  C6. When exporting the WAV file raises, \<open>transcribe_bytes\<close> propagates the library's
  exception and leaves the just-created (empty) temporary file behind: the file is
  created with \<^verbatim>\<open>delete=False\<close> before the \<^verbatim>\<open>try ... finally\<close> that would delete
  it is entered.
\<close>

lemma export_leak:
  assumes "from_file env data = Inr a" "to_mono_16k env a = Inr a'"
    "tmp_error env (next_tmp w) = None" "export_error env (next_tmp w) a' = Some l"
  shows "fst (transcribe_bytes env t data fn w) = Inl (LibError l) \<and>
         fs (snd (transcribe_bytes env t data fn w)) = (fs w)(next_tmp w \<mapsto> EmptyFile)"
  using assms by (simp add: transcribe_bytes_wav_error ensure_wav_export_error)

text \<open>
  C7. When deleting the temporary file raises, the exception is swallowed: the request
  still succeeds with the engine's reshaped output, nothing about the failure is
  logged (the only record is the conversion's), and the normalised WAV file stays in
  the temporary directory.
\<close>

lemma unlink_leak:
  assumes "from_file env data = Inr a" "to_mono_16k env a = Inr a'"
    "tmp_error env (next_tmp w) = None" "export_error env (next_tmp w) a' = None"
    "unlink_error env (next_tmp w) = Some l"
    "run_model env (model t) (Some (WavFile a')) = Inr res" "shape_result (model_name t) res = Inr out"
  shows "fst (transcribe_bytes env t data fn w) = Inr out \<and>
         fs (snd (transcribe_bytes env t data fn w)) (next_tmp w) = Some (WavFile a') \<and>
         log (snd (transcribe_bytes env t data fn w)) =
           log w @ [LogEntry ''app.transcribe'' DEBUG (''Converted audio to wav: '' @ show_nat (next_tmp w)) None]"
  using assms by (simp add: transcribe_bytes_after_wav ensure_wav_ok unlink_tmp_def lib_def)

text \<open>
  C16. Whatever the engine raises is replaced by \<open>TranscriptionError("Transcription
  failed")\<close>, the class the endpoint reports as a client error.
\<close>

lemma engine_error_400:
  assumes "ensure_wav env data w = (Inr p, w1)" "run_model env (model t) (fs w1 p) = Inl l"
  shows "fst (transcribe_bytes env t data fn w) = Inl (TranscriptionError ''Transcription failed'')"
  using assms by (simp add: transcribe_bytes_after_wav)

lemma transcribe_bytes_Inr:
  "fst (transcribe_bytes env t data fn w) = Inr out \<longleftrightarrow>
   (\<exists>p w1 res. ensure_wav env data w = (Inr p, w1) \<and> run_model env (model t) (fs w1 p) = Inr res \<and>
      shape_result (model_name t) res = Inr out)"
  by (auto simp: transcribe_bytes_def ret_iff split: sum.splits prod.splits)

lemma transcribe_bytes_Inl:
  "fst (transcribe_bytes env t data fn w) = Inl e \<Longrightarrow>
   (\<exists>w1. ensure_wav env data w = (Inl e, w1)) \<or> e = TranscriptionError ''Transcription failed''"
  by (auto simp: transcribe_bytes_def split: sum.splits prod.splits)

text \<open>The result does not depend on the world beyond the name of the next temporary file.\<close>

lemma transcribe_bytes_result:
  "fst (transcribe_bytes env t data fn w) =
     (case from_file env data of
        Inl l \<Rightarrow> Inl (TranscriptionError ''Unsupported or corrupt audio format'')
      | Inr a \<Rightarrow>
          (case to_mono_16k env a of
             Inl e \<Rightarrow> Inl e
           | Inr a' \<Rightarrow>
               (case tmp_error env (next_tmp w) of
                  Some l \<Rightarrow> Inl (LibError l)
                | None \<Rightarrow>
                    (case export_error env (next_tmp w) a' of
                       Some l \<Rightarrow> Inl (LibError l)
                     | None \<Rightarrow>
                         (case sbind (lib (run_model env (model t) (Some (WavFile a')))) (shape_result (model_name t)) of
                            Inl e \<Rightarrow> Inl (TranscriptionError ''Transcription failed'')
                          | Inr out \<Rightarrow> Inr out)))))"
  by (cases rule: ensure_wav_cases [where env = env and data = data and w = w])
     (simp_all add: ensure_wav_branches transcribe_bytes_wav_error transcribe_bytes_after_wav
                    split: sum.splits)

text \<open>Frame: the methods touch nothing of the state beyond the world.\<close>

lemma ensure_wav_more: "ensure_wav env data w = (r, w') \<Longrightarrow> world.more w' = world.more w"
  by (cases rule: ensure_wav_cases [where env = env and data = data and w = w])
     (auto simp: ensure_wav_branches)

lemma unlink_tmp_more [simp]: "world.more (unlink_tmp env p w) = world.more w"
  by (simp add: unlink_tmp_def split: option.splits)

lemma transcribe_bytes_more: "transcribe_bytes env t data fn w = (r, w') \<Longrightarrow> world.more w' = world.more w"
  by (auto simp: transcribe_bytes_def dest: ensure_wav_more split: sum.splits prod.splits)

text \<open>The log is only ever appended to.\<close>

lemma ensure_wav_log: "ensure_wav env data w = (r, w') \<Longrightarrow> \<exists>l. log w' = log w @ l"
  by (cases rule: ensure_wav_cases [where env = env and data = data and w = w])
     (auto simp: ensure_wav_branches)

lemma transcribe_bytes_log: "transcribe_bytes env t data fn w = (r, w') \<Longrightarrow> \<exists>l. log w' = log w @ l"
  by (auto simp: transcribe_bytes_def split: sum.splits prod.splits dest!: ensure_wav_log)

lemma transcribe_bytes_no_leak:
  assumes tb: "transcribe_bytes env t data fn w = (r, w')" and fresh: "tmp_fresh w" and rel: "fs_reliable env"
  shows "fs w' = fs w"
proof -
  have "fs (snd (transcribe_bytes env t data fn w)) = fs w"
  proof (cases rule: ensure_wav_cases [where env = env and data = data and w = w])
    case (ok a a')
    with fresh rel show ?thesis
      by (simp add: transcribe_bytes_fs ensure_wav_ok fun_upd_idem fs_reliable_def)
  next
    case (export a a' l)
    with rel show ?thesis by (simp add: fs_reliable_def)
  qed (simp_all add: transcribe_bytes_fs ensure_wav_branches)
  with tb show ?thesis by simp
qed

lemma transcribe_bytes_tmp_fresh':
  "transcribe_bytes env t data fn w = (r, w') \<Longrightarrow> tmp_fresh w \<Longrightarrow> tmp_fresh w'"
  using transcribe_bytes_tmp_fresh [of w env t data fn] by simp

subsection \<open>Reshaping the engine's result\<close>




lemma shape_segment_Inr:
  "shape_segment s = Inr s' \<longleftrightarrow>
   (\<exists>kvs v1 v2 st en tx. s = PDict kvs \<and>
      py_get s ''start'' (PFloat 0) = Inr v1 \<and> py_round v1 3 = Inr st \<and>
      py_get s ''end'' (PFloat 0) = Inr v2 \<and> py_round v2 3 = Inr en \<and>
      py_get s ''text'' (PStr []) = Inr (PStr tx) \<and>
      s' = PDict [(''start'', st), (''end'', en), (''text'', PStr (py_strip tx))])"
  by (cases s) (auto simp: shape_segment_def ret_iff)

text \<open>A shaped segment conforms to \<open>Segment\<close>, trimmed and to the millisecond.\<close>

lemma shape_segment_conforms:
  assumes "shape_segment s = Inr s'"
  shows "\<exists>b. validate_segment s' = Some b \<and> trimmed (seg_text b) \<and>
             on_grid 3 (seg_start b) \<and> on_grid 3 (seg_end b)"
proof -
  from assms obtain v1 v2 st en tx where
    r1: "py_round v1 3 = Inr st" and r2: "py_round v2 3 = Inr en" and
    s': "s' = PDict [(''start'', st), (''end'', en), (''text'', PStr (py_strip tx))]"
    by (auto simp: shape_segment_Inr)
  from py_round_pyd_float [OF r1] obtain x where x: "pyd_float st = Some (round_digits 3 x)" by blast
  from py_round_pyd_float [OF r2] obtain y where y: "pyd_float en = Some (round_digits 3 y)" by blast
  show ?thesis using x y s' by (simp add: pyd_field_def)
qed

text \<open>On a segment that itself conforms, shaping rounds the times and strips the text.\<close>

lemma shape_segment_round:
  assumes "validate_segment s = Some a"
  shows "\<exists>s'. shape_segment s = Inr s' \<and> validate_segment s' = Some (round_seg a)"
proof -
  from assms obtain kvs v1 v2 tx where s: "s = PDict kvs"
    and m1: "map_of kvs ''start'' = Some v1" "pyd_float v1 = Some (seg_start a)"
    and m2: "map_of kvs ''end'' = Some v2" "pyd_float v2 = Some (seg_end a)"
    and m3: "map_of kvs ''text'' = Some (PStr tx)" "seg_text a = tx"
    by (auto simp: validate_segment_Some ret_iff elim!: pyd_str.elims)
  from py_round_of_pyd_float [OF m1(2)] obtain st where
    st: "py_round v1 3 = Inr st" "pyd_float st = Some (round_digits 3 (seg_start a))" by blast
  from py_round_of_pyd_float [OF m2(2)] obtain en where
    en: "py_round v2 3 = Inr en" "pyd_float en = Some (round_digits 3 (seg_end a))" by blast
  show ?thesis
    using s m1 m2 m3 st en by (simp add: shape_segment_def round_seg_def pyd_field_def)
qed

lemma shape_segments_round:
  "list_all2 (\<lambda>s a. validate_segment s = Some a) items as \<Longrightarrow>
   \<exists>segs. smap shape_segment items = Inr segs \<and>
          list_all2 (\<lambda>s b. validate_segment s = Some b) segs (map round_seg as)"
proof (induction rule: list_all2_induct)
  case Nil
  then show ?case by simp
next
  case (Cons s items a as)
  then show ?case using shape_segment_round [of s a] by fastforce
qed

lemma well_timed_round: "well_timed as \<Longrightarrow> well_timed (map round_seg as)"
  by (auto simp: well_timed_def round_seg_def sorted_wrt_map round_digits_mono
           elim!: sorted_wrt_mono_rel [rotated])

lemma shape_result_typed:
  assumes "map_of kvs ''text'' = Some (PStr tx)" "map_of kvs ''segments'' = Some (PList items)"
    "list_all2 (\<lambda>s a. validate_segment s = Some a) items as" "map_of kvs ''language'' = Some lang"
  shows "\<exists>segs. shape_result name (PDict kvs) =
           Inr (PDict [(''text'', PStr (py_strip tx)), (''language'', lang), (''segments'', PList segs),
                       (''model'', PStr name)]) \<and>
           list_all2 (\<lambda>s b. validate_segment s = Some b) segs (map round_seg as)"
proof -
  from shape_segments_round [OF assms(3)] obtain segs where
    "smap shape_segment items = Inr segs" "list_all2 (\<lambda>s b. validate_segment s = Some b) segs (map round_seg as)"
    by blast
  moreover have "py_or (PList items) (PList []) = PList items"
    by (simp add: py_or_def)
  ultimately show ?thesis
    using assms(1,2,4) by (simp add: shape_result_def)
qed

lemma shape_result_eq_Inr:
  "shape_result name res = Inr out \<longleftrightarrow>
   (\<exists>tx segs0 lang items segs. py_get res ''text'' (PStr []) = Inr (PStr tx) \<and>
      py_get res ''segments'' PNone = Inr segs0 \<and> py_get res ''language'' PNone = Inr lang \<and>
      py_iter (py_or segs0 (PList [])) = Inr items \<and> smap shape_segment items = Inr segs \<and>
      out = PDict [(''text'', PStr (py_strip tx)), (''language'', lang), (''segments'', PList segs),
                   (''model'', PStr name)])"
  unfolding shape_result_def Let_def sbind_eq_Inr py_strip_val_Inr by blast

lemma shape_result_Inr:
  assumes "shape_result name res = Inr out"
  shows "\<exists>tx lang segs. py_get res ''language'' PNone = Inr lang \<and>
           out = PDict [(''text'', PStr (py_strip tx)), (''language'', lang), (''segments'', PList segs),
                        (''model'', PStr name)] \<and>
           (\<forall>s \<in> set segs. \<exists>b. validate_segment s = Some b \<and> trimmed (seg_text b) \<and>
                               on_grid 3 (seg_start b) \<and> on_grid 3 (seg_end b))"
proof -
  from assms obtain tx lang items segs where
    tx: "py_get res ''text'' (PStr []) = Inr (PStr tx)" and
    lang: "py_get res ''language'' PNone = Inr lang" and
    segs: "smap shape_segment items = Inr segs" and
    out: "out = PDict [(''text'', PStr (py_strip tx)), (''language'', lang), (''segments'', PList segs),
                       (''model'', PStr name)]"
    using assms unfolding shape_result_eq_Inr by blast
  have "\<forall>s \<in> set segs. \<exists>x \<in> set items. shape_segment x = Inr s"
    using smap_Inr_member [OF segs] by blast
  then have "\<forall>s \<in> set segs. \<exists>b. validate_segment s = Some b \<and> trimmed (seg_text b) \<and>
               on_grid 3 (seg_start b) \<and> on_grid 3 (seg_end b)"
    using shape_segment_conforms by blast
  with lang out show ?thesis by blast
qed

text \<open>
  C10. Whatever the engine returns, a successful reshaping produces a body that
  conforms to the declared \<open>TranscriptionResponse\<close> as soon as the engine's language
  is a string or \<open>None\<close>: it names the model, its texts carry no surrounding whitespace
  and its times are given to the millisecond.
\<close>

lemma shape_result_conforms:
  assumes "shape_result name res = Inr out" "py_get res ''language'' PNone = Inr lang" "pyd_opt_str lang = Some l"
  shows "\<exists>r. validate_response out = Some r \<and> resp_model r = name \<and> trimmed (resp_text r) \<and>
             (\<forall>b \<in> set (resp_segments r). trimmed (seg_text b) \<and> on_grid 3 (seg_start b) \<and> on_grid 3 (seg_end b))"
proof -
  let ?P = "\<lambda>b. trimmed (seg_text b) \<and> on_grid 3 (seg_start b) \<and> on_grid 3 (seg_end b)"
  obtain tx lang' segs where
    lang': "py_get res ''language'' PNone = Inr lang'" and
    out: "out = PDict [(''text'', PStr (py_strip tx)), (''language'', lang'), (''segments'', PList segs),
                       (''model'', PStr name)]" and
    segs: "\<forall>s \<in> set segs. \<exists>b. validate_segment s = Some b \<and> ?P b"
    using shape_result_Inr [OF assms(1)] by blast
  from lang' assms(2) have "lang' = lang" by simp
  have "\<exists>bs. those (map validate_segment segs) = Some bs \<and> (\<forall>b \<in> set bs. ?P b)"
    by (rule those_map_Some) (use segs in blast)
  then obtain bs where bs: "those (map validate_segment segs) = Some bs" "\<forall>b \<in> set bs. ?P b"
    by blast
  show ?thesis
    using out bs assms(3) \<open>lang' = lang\<close> by (simp add: pyd_field_def)
qed

text \<open>
  C11. On engine output of the documented shape (a text, a list of segments each with a
  start, an end and a text, a language), the body is the stripped text, the language
  as given, the segments with their times rounded to the millisecond and their texts
  stripped, and the model's name; segments that were in chronological order (each
  starting no later than it ends, and ending no later than the next starts) stay in
  that order after rounding.
\<close>

theorem shape_result_timing:
  assumes "map_of kvs ''text'' = Some (PStr tx)" "map_of kvs ''segments'' = Some (PList items)"
    "list_all2 (\<lambda>s a. validate_segment s = Some a) items as" "map_of kvs ''language'' = Some lang"
    "well_timed as"
  shows "\<exists>segs. shape_result name (PDict kvs) =
           Inr (PDict [(''text'', PStr (py_strip tx)), (''language'', lang), (''segments'', PList segs),
                       (''model'', PStr name)]) \<and>
           pyd_list validate_segment (PList segs) = Some (map round_seg as) \<and>
           well_timed (map round_seg as)"
proof -
  from shape_result_typed [OF assms(1-4)] obtain segs where
    "shape_result name (PDict kvs) =
       Inr (PDict [(''text'', PStr (py_strip tx)), (''language'', lang), (''segments'', PList segs),
                   (''model'', PStr name)])"
    "list_all2 (\<lambda>s b. validate_segment s = Some b) segs (map round_seg as)"
    by blast
  with well_timed_round [OF assms(5)] show ?thesis
    by (simp add: list_all2_those)
qed

text \<open>
  C12. Rounding a segment moves each of its times by at most half a millisecond, onto the
  millisecond grid.
\<close>

theorem shape_segment_precision:
  assumes "validate_segment s = Some a"
  shows "\<exists>s' b. shape_segment s = Inr s' \<and> validate_segment s' = Some b \<and>
           \<bar>seg_start b - seg_start a\<bar> \<le> 1/2000 \<and> \<bar>seg_end b - seg_end a\<bar> \<le> 1/2000 \<and>
           on_grid 3 (seg_start b) \<and> on_grid 3 (seg_end b)"
proof -
  from shape_segment_round [OF assms] obtain s' where
    "shape_segment s = Inr s'" "validate_segment s' = Some (round_seg a)" by blast
  moreover have "\<bar>round_digits 3 x - x\<bar> \<le> 1/2000" for x
    using round_digits_near [of 3 x] by simp
  ultimately show ?thesis
    by (auto simp: round_seg_def)
qed

text \<open>
  C17. A successful \<open>_ensure_wav\<close> returns a name that was not in use, and the file
  under that name holds the upload converted to one channel at 16000 Hz (given pydub's
  contract for the two conversions).
\<close>

theorem ensure_wav_normalizes:
  assumes "ensure_wav env data w = (Inr p, w')" "pydub_contract env" "tmp_fresh w"
  shows "fs w p = None \<and> (\<exists>a'. fs w' p = Some (WavFile a') \<and> channels a' = 1 \<and> frame_rate a' = 16000)"
proof -
  from ensure_wav_Inr [OF assms(1)] obtain a a' where
    "to_mono_16k env a = Inr a'" "p = next_tmp w" "fs w' = (fs w)(p \<mapsto> WavFile a')"
    by blast
  with to_mono_16k_format [OF assms(2)] assms(3) show ?thesis by auto
qed

subsection \<open>The constructor\<close>

text \<open>
  C19. The constructor returns a transcriber exactly when the model loads, and then it
  is that model, under the requested name, ready: no transcriber with
  \<open>ready = False\<close> is ever returned, so the assignment of line 35 has no effect that
  a caller can see.
\<close>

theorem Transcriber_init_result:
  "fst (Transcriber_init env name device w) = Inr t \<longleftrightarrow>
   load_model env name = Inr (model t) \<and> model_name t = name \<and> ready t"
  by (cases t) (auto simp: Transcriber_init_def Let_def lib_def split: sum.splits)

text \<open>
  C20. The device argument, and the \<^verbatim>\<open>WHISPER_DEVICE\<close> variable it falls back to,
  have no effect: the constructor behaves the same, log included, whatever device it
  is given.
\<close>

theorem Transcriber_init_device_unused:
  "Transcriber_init env name d1 w = Transcriber_init env name d2 w"
  by (simp add: Transcriber_init_def Let_def)

text \<open>
  C21. \<^verbatim>\<open>result.get("segments") or []\<close>: an engine result whose segments are
  missing, \<open>None\<close>, or any other falsy value (an empty list, an empty string, zero)
  yields an empty list of segments and no error.
\<close>

theorem falsy_segments_empty:
  assumes "py_get res ''text'' (PStr []) = Inr (PStr tx)" "py_get res ''segments'' PNone = Inr v"
    "\<not> py_truthy v" "py_get res ''language'' PNone = Inr lang"
  shows "shape_result name res =
           Inr (PDict [(''text'', PStr (py_strip tx)), (''language'', lang), (''segments'', PList []),
                       (''model'', PStr name)])"
  using assms by (simp add: shape_result_def py_or_def)

end
