(* ===== verification/Service.thy ===== *)
theory Service
  imports Transcriber
begin

text \<open>
  The FastAPI application of \<^verbatim>\<open>src/app/main.py\<close>. Its state is the module's
  global \<^verbatim>\<open>_transcriber\<close> (\<open>None\<close> until startup succeeds), kept with the world
  the handlers act on. \<open>MODEL_NAME\<close> is read from the environment at import time.
  \<open>startup_event\<close>, \<open>health\<close> and \<open>transcribe_endpoint\<close> are the three handlers;
  an \<^verbatim>\<open>HTTPException(status, detail)\<close> is the response FastAPI renders for it,
  the body \<^verbatim>\<open>{"detail": detail}\<close> with that status.
\<close>

record 'm svc = world +
  transcriber_var :: "'m transcriber option"

definition MODEL_NAME :: "'m env \<Rightarrow> string" where
  "MODEL_NAME env = (case getenv env ''WHISPER_MODEL'' of None \<Rightarrow> ''base'' | Some s \<Rightarrow> s)"

text \<open>The state before startup: no transcriber, and the world as it is.\<close>

definition init_svc :: "world \<Rightarrow> 'm svc" where
  "init_svc w = \<lparr>fs = fs w, next_tmp = next_tmp w, log = log w, transcriber_var = None\<rparr>"

text \<open>
  \<^verbatim>\<open>startup_event()\<close>: a failure of the constructor is logged and swallowed, and
  \<^verbatim>\<open>_transcriber\<close> keeps its value.
\<close>

definition startup_event :: "'m env \<Rightarrow> 'm svc \<Rightarrow> 'm svc" where
  "startup_event env s =
     (let s1 = log_append ''uvicorn.error'' INFO (''Starting service, loading model '' @ MODEL_NAME env) None s
      in case Transcriber_init env (MODEL_NAME env) None s1 of
           (Inr t, s2) \<Rightarrow> s2\<lparr>transcriber_var := Some t\<rparr>
         | (Inl e, s2) \<Rightarrow>
             log_append ''uvicorn.error'' ERROR (''Failed to initialize transcriber: '' @ exc_str e) (Some e) s2)"

definition is_ready :: "'m svc \<Rightarrow> bool" where
  "is_ready s = (case transcriber_var s of None \<Rightarrow> False | Some t \<Rightarrow> ready t)"

text \<open>\<^verbatim>\<open>GET /health\<close>: it reads the state and changes nothing.\<close>

definition health :: "'m env \<Rightarrow> 'm svc \<Rightarrow> pyval" where
  "health env s =
     (let rdy = is_ready s
      in PDict [(''status'', PStr (if rdy then ''ok'' else ''starting'')),
                (''model'', if rdy then PStr (MODEL_NAME env) else PNone)])"

datatype http_response = HttpResponse nat pyval

definition detail :: "string \<Rightarrow> pyval" where
  "detail msg = PDict [(''detail'', PStr msg)]"

text \<open>The multipart upload: its metadata, and what \<^verbatim>\<open>await file.read()\<close> returns or raises.\<close>

record upload =
  filename :: "string option"
  content_type :: "string option"
  upload_data :: "lib_exc + bytes"

text \<open>Lines 33--34: the log line for an accepted upload.\<close>

definition received_msg :: "upload \<Rightarrow> string" where
  "received_msg u =
     (let ct = (case content_type u of None \<Rightarrow> [] | Some c \<Rightarrow> c)
      in ''Received file: filename='' @ py_str_opt (filename u) @ '' content_type='' @ ct)"

text \<open>
  \<^verbatim>\<open>POST /transcribe\<close>. The readiness check comes first; reading the upload and
  transcribing run inside one \<^verbatim>\<open>try\<close>, whose handlers map a
  \<open>TranscriptionError\<close> to 400 with its message and any other exception to 500 with
  a fixed message.
\<close>

definition transcribe_endpoint :: "'m env \<Rightarrow> upload \<Rightarrow> 'm svc \<Rightarrow> http_response \<times> 'm svc" where
  "transcribe_endpoint env u s =
     (case transcriber_var s of
        None \<Rightarrow> (HttpResponse 503 (detail ''Transcription model not ready''), s)
      | Some t \<Rightarrow>
          if \<not> ready t then (HttpResponse 503 (detail ''Transcription model not ready''), s)
          else
            (let s1 = log_append ''uvicorn.error'' INFO (received_msg u) None s;
                 (r, s2) = (case lib (upload_data u) of
                              Inl e \<Rightarrow> (Inl e, s1)
                            | Inr data \<Rightarrow> transcribe_bytes env t data (filename u) s1)
             in case r of
                  Inr result \<Rightarrow> (HttpResponse 200 result, s2)
                | Inl e \<Rightarrow>
                    if is_transcription_error e
                    then (HttpResponse 400 (detail (exc_str e)),
                          log_append ''uvicorn.error'' WARNING (''Transcription error: '' @ exc_str e) None s2)
                    else (HttpResponse 500 (detail ''Internal server error''),
                          log_append ''uvicorn.error'' ERROR
                            (''Unexpected error during transcription: '' @ exc_str e) (Some e) s2)))"

primrec status :: "http_response \<Rightarrow> nat" where
  "status (HttpResponse c b) = c"

primrec body :: "http_response \<Rightarrow> pyval" where
  "body (HttpResponse c b) = b"


subsection \<open>The contract of \<open>/transcribe\<close>\<close>

text \<open>
  An abstract view of one request: the first stage of the pipeline that fails, or the
  body it produces. \<open>spec_status\<close> is the status the spec (sections 4.3, 6, 7)
  assigns to each outcome: \<open>UnsupportedFormat\<close> is a client error, every other
  failure, the engine's included, an internal one. \<open>code_response\<close> is the response
  the code gives; \<open>transcribe_endpoint_response\<close> below proves that it is.
\<close>

datatype outcome =
    NotReady
  | ReadFailed
  | UnsupportedFormat
  | ConvertFailed
  | TempFileFailed
  | ExportFailed
  | InferenceFailed
  | Completed pyval

definition pipeline_outcome :: "'m env \<Rightarrow> upload \<Rightarrow> 'm svc \<Rightarrow> outcome" where
  "pipeline_outcome env u s =
     (case transcriber_var s of
        None \<Rightarrow> NotReady
      | Some t \<Rightarrow>
          if \<not> ready t then NotReady else
          (case upload_data u of
             Inl e \<Rightarrow> ReadFailed
           | Inr data \<Rightarrow>
               (case from_file env data of
                  Inl l \<Rightarrow> UnsupportedFormat
                | Inr a \<Rightarrow>
                    (case to_mono_16k env a of
                       Inl e \<Rightarrow> ConvertFailed
                     | Inr a' \<Rightarrow>
                         (case tmp_error env (next_tmp s) of
                            Some l \<Rightarrow> TempFileFailed
                          | None \<Rightarrow>
                              (case export_error env (next_tmp s) a' of
                                 Some l \<Rightarrow> ExportFailed
                               | None \<Rightarrow>
                                   (case sbind (lib (run_model env (model t) (Some (WavFile a'))))
                                               (shape_result (model_name t)) of
                                      Inl e \<Rightarrow> InferenceFailed
                                    | Inr out \<Rightarrow> Completed out)))))))"

primrec spec_status :: "outcome \<Rightarrow> nat" where
  "spec_status NotReady = 503"
| "spec_status ReadFailed = 500"
| "spec_status UnsupportedFormat = 400"
| "spec_status ConvertFailed = 500"
| "spec_status TempFileFailed = 500"
| "spec_status ExportFailed = 500"
| "spec_status InferenceFailed = 500"
| "spec_status (Completed out) = 200"

primrec code_response :: "outcome \<Rightarrow> http_response" where
  "code_response NotReady = HttpResponse 503 (detail ''Transcription model not ready'')"
| "code_response ReadFailed = HttpResponse 500 (detail ''Internal server error'')"
| "code_response UnsupportedFormat = HttpResponse 400 (detail ''Unsupported or corrupt audio format'')"
| "code_response ConvertFailed = HttpResponse 500 (detail ''Internal server error'')"
| "code_response TempFileFailed = HttpResponse 500 (detail ''Internal server error'')"
| "code_response ExportFailed = HttpResponse 500 (detail ''Internal server error'')"
| "code_response InferenceFailed = HttpResponse 400 (detail ''Transcription failed'')"
| "code_response (Completed out) = HttpResponse 200 out"

definition respond :: "exc + pyval \<Rightarrow> http_response" where
  "respond r = (case r of
                  Inr res \<Rightarrow> HttpResponse 200 res
                | Inl e \<Rightarrow> if is_transcription_error e then HttpResponse 400 (detail (exc_str e))
                         else HttpResponse 500 (detail ''Internal server error''))"

subsection \<open>Facts about the handlers\<close>

lemma transcriber_var_more: "world.more s = world.more s' \<Longrightarrow> transcriber_var s = transcriber_var s'"
  by (cases s; cases s') simp

lemma log_append_transcriber_var [simp]: "transcriber_var (log_append lg lv msg ex s) = transcriber_var s"
  by (simp add: log_append_def)

lemma transcribe_bytes_transcriber_var:
  "transcribe_bytes env t data fn s = (r, s') \<Longrightarrow> transcriber_var s' = transcriber_var s"
  by (rule transcriber_var_more) (rule transcribe_bytes_more)

lemma transcribe_endpoint_transcriber [simp]:
  "transcriber_var (snd (transcribe_endpoint env u s)) = transcriber_var s"
  by (auto simp: transcribe_endpoint_def Let_def split: option.splits sum.splits prod.splits
           dest!: transcribe_bytes_transcriber_var)

lemma to_mono_16k_not_te: "to_mono_16k env a = Inl e \<Longrightarrow> \<not> is_transcription_error e"
  by (auto simp: to_mono_16k_def sbind_eq_Inl lib_eq_Inl)

lemma transcribe_endpoint_not_ready:
  "\<not> is_ready s \<Longrightarrow> transcribe_endpoint env u s = (HttpResponse 503 (detail ''Transcription model not ready''), s)"
  by (simp add: transcribe_endpoint_def is_ready_def split: option.splits)

lemma transcribe_endpoint_ready:
  assumes "transcriber_var s = Some t" "ready t"
  shows "fst (transcribe_endpoint env u s) =
           respond (case lib (upload_data u) of
                      Inl e \<Rightarrow> Inl e
                    | Inr data \<Rightarrow>
                        fst (transcribe_bytes env t data (filename u)
                               (log_append ''uvicorn.error'' INFO (received_msg u) None s)))"
  using assms
  by (simp add: transcribe_endpoint_def respond_def Let_def split: sum.split prod.split)

lemma transcribe_endpoint_response:
  "fst (transcribe_endpoint env u s) = code_response (pipeline_outcome env u s)"
proof (cases "is_ready s")
  case False
  then show ?thesis
    by (simp add: transcribe_endpoint_not_ready pipeline_outcome_def is_ready_def split: option.splits)
next
  case True
  then obtain t where t: "transcriber_var s = Some t" "ready t"
    by (auto simp: is_ready_def split: option.splits)
  then show ?thesis
    by (auto simp: transcribe_endpoint_ready pipeline_outcome_def respond_def transcribe_bytes_result lib_def
             to_mono_16k_not_te split: sum.splits option.splits)
qed

text \<open>
  C1. The handler implements the contract: the response of \<open>/transcribe\<close> is the one
  \<open>code_response\<close> assigns to the first stage of the pipeline that fails (503 when
  no model is ready, 400 for an undecodable upload or a failure of the engine, 500 for
  any other failure, 200 with the reshaped result), and the model handle is left as it
  was.
\<close>

theorem transcribe_endpoint_refines:
  "fst (transcribe_endpoint env u s) = code_response (pipeline_outcome env u s) \<and>
   transcriber_var (snd (transcribe_endpoint env u s)) = transcriber_var s"
  by (simp add: transcribe_endpoint_response)

text \<open>
  C2. The status codes agree with the spec's taxonomy on every request except one whose
  engine fails: there the code answers 400, where the spec asks for 500.
\<close>

lemma spec_status_divergence:
  "status (fst (transcribe_endpoint env u s)) = spec_status (pipeline_outcome env u s) \<longleftrightarrow>
   pipeline_outcome env u s \<noteq> InferenceFailed"
  by (cases "pipeline_outcome env u s") (simp_all add: transcribe_endpoint_response)


lemma transcribe_endpoint_tmp_fresh: "tmp_fresh s \<Longrightarrow> tmp_fresh (snd (transcribe_endpoint env u s))"
  by (auto simp: transcribe_endpoint_def Let_def split: option.splits sum.splits prod.splits
           dest!: transcribe_bytes_tmp_fresh')

lemma transcribe_endpoint_no_leak:
  "tmp_fresh s \<Longrightarrow> fs_reliable env \<Longrightarrow> fs (snd (transcribe_endpoint env u s)) = fs s"
  by (auto simp: transcribe_endpoint_def Let_def split: option.splits sum.splits prod.splits
           dest!: transcribe_bytes_no_leak)

lemma transcribe_endpoint_log: "\<exists>l. log (snd (transcribe_endpoint env u s)) = log s @ l"
  by (auto simp: transcribe_endpoint_def Let_def split: option.splits sum.splits prod.splits
           dest!: transcribe_bytes_log)

lemma transcribe_endpoint_ready_log:
  "is_ready s \<Longrightarrow>
   \<exists>l. log (snd (transcribe_endpoint env u s)) = log s @ LogEntry ''uvicorn.error'' INFO (received_msg u) None # l"
  by (auto simp: transcribe_endpoint_def is_ready_def Let_def split: option.splits sum.splits prod.splits
           dest!: transcribe_bytes_log)

lemma transcribe_endpoint_failure_level:
  "is_ready s \<Longrightarrow> status (fst (transcribe_endpoint env u s)) \<noteq> 200 \<Longrightarrow>
   WARNING \<le> entry_level (last (log (snd (transcribe_endpoint env u s))))"
  by (auto simp: transcribe_endpoint_def is_ready_def Let_def less_eq_level_def
           split: option.splits sum.splits prod.splits)

text \<open>
  C13. A 500 response carries only the fixed message "Internal server error", and the
  exception behind it, never a \<open>TranscriptionError\<close>, is the last record of the log.
\<close>

lemma transcribe_endpoint_500:
  assumes "status (fst (transcribe_endpoint env u s)) = 500"
  shows "body (fst (transcribe_endpoint env u s)) = detail ''Internal server error'' \<and>
         (\<exists>e. \<not> is_transcription_error e \<and>
              last (log (snd (transcribe_endpoint env u s))) =
                LogEntry ''uvicorn.error'' ERROR (''Unexpected error during transcription: '' @ exc_str e) (Some e))"
  using assms
  by (auto simp: transcribe_endpoint_def Let_def split: option.splits sum.splits prod.splits if_splits)

lemma startup_event_loaded:
  "load_model env (MODEL_NAME env) = Inr m \<Longrightarrow>
   transcriber_var (startup_event env s) = Some \<lparr>model_name = MODEL_NAME env, model = m, ready = True\<rparr>"
  by (simp add: startup_event_def Transcriber_init_def Let_def)

lemma startup_event_failed:
  "load_model env (MODEL_NAME env) = Inl l \<Longrightarrow> transcriber_var (startup_event env s) = transcriber_var s"
  by (simp add: startup_event_def Transcriber_init_def Let_def)

lemma startup_event_fs [simp]: "fs (startup_event env s) = fs s"
  by (simp add: startup_event_def Transcriber_init_def Let_def split: sum.splits)

lemma startup_event_next_tmp [simp]: "next_tmp (startup_event env s) = next_tmp s"
  by (simp add: startup_event_def Transcriber_init_def Let_def split: sum.splits)

lemma startup_event_tmp_fresh: "tmp_fresh (startup_event env s) = tmp_fresh s"
  by (simp add: tmp_fresh_def)

lemma health_ok: "is_ready s \<Longrightarrow> health env s = PDict [(''status'', PStr ''ok''), (''model'', PStr (MODEL_NAME env))]"
  by (simp add: health_def)

lemma health_starting: "\<not> is_ready s \<Longrightarrow> health env s = PDict [(''status'', PStr ''starting''), (''model'', PNone)]"
  by (simp add: health_def)

text \<open>
  C14. A 400 response carries one of the two fixed messages of
  \<^verbatim>\<open>src/app/transcribe.py\<close>: no text of a library's exception reaches the client.
\<close>

theorem transcribe_endpoint_400:
  assumes "status (fst (transcribe_endpoint env u s)) = 400"
  shows "body (fst (transcribe_endpoint env u s)) = detail ''Unsupported or corrupt audio format'' \<or>
         body (fst (transcribe_endpoint env u s)) = detail ''Transcription failed''"
  using assms by (cases "pipeline_outcome env u s") (simp_all add: transcribe_endpoint_response)

text \<open>
  C22. A failed model load is logged and swallowed: the handle keeps its value, and
  the log gains, in order, the startup notice, the loading notice, the constructor's
  error record and the handler's error record, both carrying the exception.
\<close>

theorem startup_failure_logged:
  assumes "load_model env (MODEL_NAME env) = Inl l"
  shows "transcriber_var (startup_event env s) = transcriber_var s \<and>
         log (startup_event env s) =
           log s @ [LogEntry ''uvicorn.error'' INFO (''Starting service, loading model '' @ MODEL_NAME env) None,
                    LogEntry ''app.transcribe'' INFO (''Loading whisper model='' @ MODEL_NAME env) None,
                    LogEntry ''app.transcribe'' ERROR ''Failed to load whisper model'' (Some (LibError l)),
                    LogEntry ''uvicorn.error'' ERROR (''Failed to initialize transcriber: '' @ exc_str (LibError l))
                      (Some (LibError l))]"
  using assms by (simp add: startup_event_def Transcriber_init_def Let_def lib_def)

text \<open>
  C23. Every failed request that reaches the pipeline leaves a trace: the handler only
  appends to the log, and the last record it appends is at level \<open>WARNING\<close> or
  above (\<open>WARNING\<close> for a 400, \<open>ERROR\<close> for a 500).
\<close>

theorem request_failure_logged:
  assumes "is_ready s" "status (fst (transcribe_endpoint env u s)) \<noteq> 200"
  shows "\<exists>l. log (snd (transcribe_endpoint env u s)) = log s @ l \<and> l \<noteq> [] \<and> WARNING \<le> entry_level (last l)"
proof -
  obtain l where l: "log (snd (transcribe_endpoint env u s)) = log s @ l"
    using transcribe_endpoint_log by blast
  moreover have "l \<noteq> []"
    using transcribe_endpoint_ready_log [OF assms(1), of env u] l by auto
  moreover from this transcribe_endpoint_failure_level [OF assms] l have "WARNING \<le> entry_level (last l)"
    by simp
  ultimately show ?thesis by blast
qed

end
