(* ===== verification/Lifecycle.thy ===== *)
theory Lifecycle
  imports Service
begin

text \<open>
  The life of the process as FastAPI runs it: the startup hook runs once, before any
  request, and then requests are handled one after the other. (The endpoint is an
  \<^verbatim>\<open>async def\<close> that calls the blocking \<^verbatim>\<open>transcribe_bytes\<close>, so a request
  holds the event loop for the whole transcription; the only point where another
  request can interleave is \<^verbatim>\<open>await file.read()\<close>, before any state of the
  service is touched.) A state is the phase and the service state; \<open>app_step\<close> is one
  handler run, \<open>reachable\<close> the states a run from a given initial world reaches.
\<close>

datatype phase = NotStarted | Serving

inductive app_step :: "'m env \<Rightarrow> phase \<times> 'm svc \<Rightarrow> phase \<times> 'm svc \<Rightarrow> bool" for env where
  startup: "app_step env (NotStarted, s) (Serving, startup_event env s)"
| health_req: "app_step env (Serving, s) (Serving, s)"
| transcribe_req: "app_step env (Serving, s) (Serving, snd (transcribe_endpoint env u s))"

inductive reachable :: "'m env \<Rightarrow> world \<Rightarrow> phase \<times> 'm svc \<Rightarrow> bool" for env w0 where
  init: "reachable env w0 (NotStarted, init_svc w0)"
| step: "reachable env w0 a \<Longrightarrow> app_step env a b \<Longrightarrow> reachable env w0 b"

text \<open>
  The invariant of the handle: before startup there is none; afterwards there is one
  exactly when the configured model loaded, and it is that model, ready.
\<close>

definition handle_inv :: "'m env \<Rightarrow> phase \<times> 'm svc \<Rightarrow> bool" where
  "handle_inv env a \<longleftrightarrow>
     (case a of
        (NotStarted, s) \<Rightarrow> transcriber_var s = None
      | (Serving, s) \<Rightarrow>
          (case load_model env (MODEL_NAME env) of
             Inl l \<Rightarrow> transcriber_var s = None
           | Inr m \<Rightarrow> transcriber_var s = Some \<lparr>model_name = MODEL_NAME env, model = m, ready = True\<rparr>))"

inductive_cases app_step_NotStartedE: "app_step env (NotStarted, s) b"
inductive_cases app_step_ServingE: "app_step env (Serving, s) b"
lemma app_step_handle_inv: "app_step env a b \<Longrightarrow> handle_inv env a \<Longrightarrow> handle_inv env b"
proof (induction rule: app_step.induct)
  case (startup s)
  then show ?case
    by (auto simp: handle_inv_def startup_event_loaded startup_event_failed split: sum.splits)
qed (simp_all add: handle_inv_def split: sum.splits)

lemma reachable_handle_inv: "reachable env w0 a \<Longrightarrow> handle_inv env a"
proof (induction rule: reachable.induct)
  case init
  then show ?case by (simp add: handle_inv_def init_svc_def)
next
  case (step a b)
  from step.hyps(2) step.IH show ?case by (rule app_step_handle_inv)
qed

lemma app_step_tmp_fresh: "app_step env a b \<Longrightarrow> tmp_fresh (snd a) \<Longrightarrow> tmp_fresh (snd b)"
  by (induction rule: app_step.induct) (simp_all add: startup_event_tmp_fresh transcribe_endpoint_tmp_fresh)

lemma app_step_fs: "app_step env a b \<Longrightarrow> tmp_fresh (snd a) \<Longrightarrow> fs_reliable env \<Longrightarrow> fs (snd b) = fs (snd a)"
  by (induction rule: app_step.induct) (simp_all add: transcribe_endpoint_no_leak)

lemma init_svc_tmp_fresh [simp]: "tmp_fresh (init_svc w0) = tmp_fresh w0"
  by (simp add: tmp_fresh_def init_svc_def)

lemma reachable_tmp_fresh_aux: "reachable env w0 a \<Longrightarrow> tmp_fresh w0 \<Longrightarrow> tmp_fresh (snd a)"
  by (induction rule: reachable.induct) (auto dest: app_step_tmp_fresh)

text \<open>
  C3. No temporary file outlives its request: from a directory whose counter is
  beyond every existing name, and with a file system that does not fail, every state
  the service reaches has exactly the files it started with.
\<close>

theorem reachable_no_leak:
  assumes "reachable env w0 a" "tmp_fresh w0" "fs_reliable env"
  shows "fs (snd a) = fs w0"
  using assms(1)
proof (induction rule: reachable.induct)
  case init
  then show ?case by (simp add: init_svc_def)
next
  case (step a b)
  from step.hyps(1) assms(2) have "tmp_fresh (snd a)" by (rule reachable_tmp_fresh_aux)
  with step.hyps(2) assms(3) step.IH show ?case by (simp add: app_step_fs)
qed

text \<open>
  C4. A failed model load is permanent: after startup, if the configured model does not
  load, every transcription request is answered 503 without touching the state, and
  the health check keeps reporting "starting".
\<close>

theorem failed_startup_terminal:
  assumes "reachable env w0 (Serving, s)" "load_model env (MODEL_NAME env) = Inl l"
  shows "transcribe_endpoint env u s = (HttpResponse 503 (detail ''Transcription model not ready''), s) \<and>
         health env s = PDict [(''status'', PStr ''starting''), (''model'', PNone)]"
proof -
  from reachable_handle_inv [OF assms(1)] assms(2) have "transcriber_var s = None"
    by (simp add: handle_inv_def)
  then have "\<not> is_ready s" by (simp add: is_ready_def)
  then show ?thesis by (simp add: transcribe_endpoint_not_ready health_starting)
qed

text \<open>
  C5. A successful model load is permanent: after startup, if the configured model
  loads, the service stays ready, reports "ok" with the configured model's name, and
  never answers 503.
\<close>

theorem loaded_model_serves:
  assumes "reachable env w0 (Serving, s)" "load_model env (MODEL_NAME env) = Inr m"
  shows "health env s = PDict [(''status'', PStr ''ok''), (''model'', PStr (MODEL_NAME env))] \<and>
         status (fst (transcribe_endpoint env u s)) \<noteq> 503"
proof -
  from reachable_handle_inv [OF assms(1)] assms(2)
  have t: "transcriber_var s = Some \<lparr>model_name = MODEL_NAME env, model = m, ready = True\<rparr>"
    by (simp add: handle_inv_def)
  then have "is_ready s" by (simp add: is_ready_def)
  moreover have "status (code_response (pipeline_outcome env u s)) \<noteq> 503"
    using t by (auto simp: pipeline_outcome_def split: sum.splits option.splits)
  ultimately show ?thesis by (simp add: health_ok transcribe_endpoint_response)
qed

end
