(* ===== verification/Concurrency.thy ===== *)
theory Concurrency
  imports Lifecycle
begin

text \<open>
  Requests interleaved on the event loop. \<^verbatim>\<open>transcribe\<close> is an \<^verbatim>\<open>async def\<close> with
  one suspension point, \<^verbatim>\<open>await file.read()\<close> (line 36): lines 31--34 (the readiness
  check and the log of the upload) run when the request arrives, \<open>transcribe_accept\<close>;
  lines 35--44 run when the read completes, \<open>transcribe_resume\<close>, on the state as the
  other requests left it, and read the global \<^verbatim>\<open>_transcriber\<close> again (line 37).
  \<^verbatim>\<open>transcribe_bytes\<close> has no \<^verbatim>\<open>await\<close>, so the resumed part runs without
  interruption. A state of the server is the phase, the service state and the accepted
  requests still waiting for their upload; \<open>conc_step\<close> starts, answers a health
  check, accepts or rejects a request, or resumes any waiting one.
\<close>

definition transcribe_accept :: "'m env \<Rightarrow> upload \<Rightarrow> 'm svc \<Rightarrow> http_response option \<times> 'm svc" where
  "transcribe_accept env u s =
     (case transcriber_var s of
        None \<Rightarrow> (Some (HttpResponse 503 (detail ''Transcription model not ready'')), s)
      | Some t \<Rightarrow>
          if \<not> ready t then (Some (HttpResponse 503 (detail ''Transcription model not ready'')), s)
          else (None, log_append ''uvicorn.error'' INFO (received_msg u) None s))"

definition transcribe_resume :: "'m env \<Rightarrow> upload \<Rightarrow> 'm svc \<Rightarrow> http_response \<times> 'm svc" where
  "transcribe_resume env u s =
     (let (r, s2) = (case lib (upload_data u) of
                       Inl e \<Rightarrow> (Inl e, s)
                     | Inr data \<Rightarrow>
                         (case transcriber_var s of
                            None \<Rightarrow> (Inl (AttributeError ''object has no attribute transcribe_bytes''), s)
                          | Some t \<Rightarrow> transcribe_bytes env t data (filename u) s))
      in case r of
           Inr result \<Rightarrow> (HttpResponse 200 result, s2)
         | Inl e \<Rightarrow>
             if is_transcription_error e
             then (HttpResponse 400 (detail (exc_str e)),
                   log_append ''uvicorn.error'' WARNING (''Transcription error: '' @ exc_str e) None s2)
             else (HttpResponse 500 (detail ''Internal server error''),
                   log_append ''uvicorn.error'' ERROR
                     (''Unexpected error during transcription: '' @ exc_str e) (Some e) s2))"

type_synonym 'm server = "phase \<times> 'm svc \<times> upload list"

inductive conc_step :: "'m env \<Rightarrow> 'm server \<Rightarrow> 'm server \<Rightarrow> bool" for env where
  c_startup: "conc_step env (NotStarted, s, []) (Serving, startup_event env s, [])"
| c_health: "conc_step env (Serving, s, ps) (Serving, s, ps)"
| c_reject: "transcribe_accept env u s = (Some r, s') \<Longrightarrow> conc_step env (Serving, s, ps) (Serving, s', ps)"
| c_accept: "transcribe_accept env u s = (None, s') \<Longrightarrow> conc_step env (Serving, s, ps) (Serving, s', ps @ [u])"
| c_resume: "i < length ps \<Longrightarrow>
             conc_step env (Serving, s, ps) (Serving, snd (transcribe_resume env (ps ! i) s), take i ps @ drop (Suc i) ps)"

inductive conc_reachable :: "'m env \<Rightarrow> world \<Rightarrow> 'm server \<Rightarrow> bool" for env w0 where
  c_init: "conc_reachable env w0 (NotStarted, init_svc w0, [])"
| c_step: "conc_reachable env w0 a \<Longrightarrow> conc_step env a b \<Longrightarrow> conc_reachable env w0 b"

text \<open>
  The invariant of a server state: the handle is as \<open>handle_inv\<close> says, no request
  waits before startup, and a waiting request was accepted by a ready service.
\<close>

definition conc_inv :: "'m env \<Rightarrow> 'm server \<Rightarrow> bool" where
  "conc_inv env a \<longleftrightarrow>
     (case a of (ph, s, ps) \<Rightarrow> handle_inv env (ph, s) \<and> (ph = NotStarted \<longrightarrow> ps = []) \<and> (ps \<noteq> [] \<longrightarrow> is_ready s))"

subsection \<open>The two halves of the handler\<close>

lemma transcribe_accept_transcriber [simp]: "transcriber_var (snd (transcribe_accept env u s)) = transcriber_var s"
  by (simp add: transcribe_accept_def split: option.splits)

lemma transcribe_accept_None: "transcribe_accept env u s = (None, s') \<Longrightarrow> is_ready s"
  by (auto simp: transcribe_accept_def is_ready_def split: option.splits if_splits)

lemma transcribe_accept_tmp_fresh: "tmp_fresh (snd (transcribe_accept env u s)) = tmp_fresh s"
  by (simp add: transcribe_accept_def split: option.splits)

lemma transcribe_accept_fs [simp]: "fs (snd (transcribe_accept env u s)) = fs s"
  by (simp add: transcribe_accept_def split: option.splits)

lemma transcribe_resume_transcriber [simp]: "transcriber_var (snd (transcribe_resume env u s)) = transcriber_var s"
  by (auto simp: transcribe_resume_def Let_def split: option.splits sum.splits prod.splits
           dest!: transcribe_bytes_transcriber_var)

lemma transcribe_resume_tmp_fresh: "tmp_fresh s \<Longrightarrow> tmp_fresh (snd (transcribe_resume env u s))"
  by (auto simp: transcribe_resume_def Let_def split: option.splits sum.splits prod.splits
           dest!: transcribe_bytes_tmp_fresh')

lemma transcribe_resume_no_leak:
  "tmp_fresh s \<Longrightarrow> fs_reliable env \<Longrightarrow> fs (snd (transcribe_resume env u s)) = fs s"
  by (auto simp: transcribe_resume_def Let_def split: option.splits sum.splits prod.splits
           dest!: transcribe_bytes_no_leak)

text \<open>Split at the \<^verbatim>\<open>await\<close>, the handler is the two halves run back to back.\<close>

lemma transcribe_endpoint_split:
  "transcribe_endpoint env u s =
     (case transcribe_accept env u s of (Some r, s') \<Rightarrow> (r, s') | (None, s') \<Rightarrow> transcribe_resume env u s')"
proof (cases "transcriber_var s")
  case None
  then show ?thesis by (simp add: transcribe_endpoint_def transcribe_accept_def)
next
  case (Some t)
  then show ?thesis
    by (simp add: transcribe_endpoint_def transcribe_accept_def transcribe_resume_def Let_def
           split: sum.split)
qed

lemma handle_inv_transcriber:
  "transcriber_var s' = transcriber_var s \<Longrightarrow> handle_inv env (ph, s') = handle_inv env (ph, s)"
  by (auto simp: handle_inv_def split: sum.splits phase.splits)

lemma is_ready_transcriber: "transcriber_var s' = transcriber_var s \<Longrightarrow> is_ready s' = is_ready s"
  by (simp add: is_ready_def)

lemma conc_inv_frame:
  assumes "conc_inv env (Serving, s, ps)" "transcriber_var s' = transcriber_var s"
    "ps' \<noteq> [] \<Longrightarrow> ps \<noteq> [] \<or> is_ready s"
  shows "conc_inv env (Serving, s', ps')"
  using assms handle_inv_transcriber [OF assms(2), of env Serving] is_ready_transcriber [OF assms(2)]
  by (auto simp: conc_inv_def)

lemma conc_step_inv: "conc_step env a b \<Longrightarrow> conc_inv env a \<Longrightarrow> conc_inv env b"
proof (induction rule: conc_step.induct)
  case (c_startup s)
  then have "handle_inv env (NotStarted, s)" by (simp add: conc_inv_def)
  then have "handle_inv env (Serving, startup_event env s)" by (rule app_step_handle_inv [OF app_step.startup])
  then show ?case by (simp add: conc_inv_def)
next
  case (c_reject u s r s' ps)
  then have "transcriber_var s' = transcriber_var s" using transcribe_accept_transcriber [of env u s] by simp
  with c_reject.prems show ?case by (rule conc_inv_frame) simp
next
  case (c_accept u s s' ps)
  then have "transcriber_var s' = transcriber_var s" using transcribe_accept_transcriber [of env u s] by simp
  with c_accept.prems show ?case by (rule conc_inv_frame) (simp add: transcribe_accept_None [OF c_accept.hyps])
next
  case (c_resume i ps s)
  from c_resume.prems show ?case by (rule conc_inv_frame) (use c_resume.hyps in auto)
qed simp

lemma conc_reachable_inv: "conc_reachable env w0 a \<Longrightarrow> conc_inv env a"
proof (induction rule: conc_reachable.induct)
  case c_init
  then show ?case by (simp add: conc_inv_def handle_inv_def init_svc_def)
next
  case (c_step a b)
  from c_step.hyps(2) c_step.IH show ?case by (rule conc_step_inv)
qed

lemma conc_step_tmp_fresh: "conc_step env a b \<Longrightarrow> tmp_fresh (fst (snd a)) \<Longrightarrow> tmp_fresh (fst (snd b))"
proof (induction rule: conc_step.induct)
  case (c_reject u s r s' ps)
  then show ?case using transcribe_accept_tmp_fresh [of env u s] by simp
next
  case (c_accept u s s' ps)
  then show ?case using transcribe_accept_tmp_fresh [of env u s] by simp
qed (simp_all add: startup_event_tmp_fresh transcribe_resume_tmp_fresh)

lemma conc_step_fs:
  "conc_step env a b \<Longrightarrow> tmp_fresh (fst (snd a)) \<Longrightarrow> fs_reliable env \<Longrightarrow> fs (fst (snd b)) = fs (fst (snd a))"
proof (induction rule: conc_step.induct)
  case (c_reject u s r s' ps)
  then show ?case using transcribe_accept_fs [of env u s] by simp
next
  case (c_accept u s s' ps)
  then show ?case using transcribe_accept_fs [of env u s] by simp
qed (simp_all add: transcribe_resume_no_leak)

lemma conc_reachable_tmp_fresh: "conc_reachable env w0 a \<Longrightarrow> tmp_fresh w0 \<Longrightarrow> tmp_fresh (fst (snd a))"
  by (induction rule: conc_reachable.induct) (auto simp: init_svc_def tmp_fresh_def dest: conc_step_tmp_fresh)

text \<open>
  C25. Interleaving does not break the handle: whenever a request waits for its upload,
  the service that accepted it is ready, so the resumed handler always finds the model
  (the \<open>AttributeError\<close> branch of line 37 on a missing handle is unreachable).
\<close>

theorem conc_waiting_ready:
  assumes "conc_reachable env w0 (ph, s, ps)" "u \<in> set ps"
  shows "ph = Serving \<and> is_ready s"
  using conc_reachable_inv [OF assms(1)] assms(2) by (cases ph) (auto simp: conc_inv_def)

text \<open>
  C26. Cleanup survives interleaving: however the accepted requests are interleaved,
  with a file system that does not fail every state the server reaches has exactly the
  files it started with.
\<close>

theorem conc_no_leak:
  assumes "conc_reachable env w0 a" "tmp_fresh w0" "fs_reliable env"
  shows "fs (fst (snd a)) = fs w0"
  using assms(1)
proof (induction rule: conc_reachable.induct)
  case c_init
  then show ?case by (simp add: init_svc_def)
next
  case (c_step a b)
  from c_step.hyps(1) assms(2) have "tmp_fresh (fst (snd a))" by (rule conc_reachable_tmp_fresh)
  with c_step.hyps(2) assms(3) c_step.IH show ?case by (simp add: conc_step_fs)
qed

end
