(* ===== verification/TestSuite.thy ===== *)
theory TestSuite
  imports Service
begin

text \<open>
  The repository's tests, \<^verbatim>\<open>src/tests/test_api.py\<close>, as functions of the service
  state to their outcome: a test passes, an \<^verbatim>\<open>assert\<close> fails, or an expression
  raises. \<^verbatim>\<open>r.json()\<close> is the body of the response. The module does not parse as
  written (line 32 ends in \<^verbatim>\<open>(503, 400).:\<close>), so no statement is made about a run
  of the suite; \<open>test_transcribe\<close> reads that line as \<^verbatim>\<open>in (503, 400)\<close> only to
  give the non-200 branch a value, and the theorem below concerns the 200 branch
  (lines 26--30), which is modelled as written.
\<close>

datatype test_outcome = Passed | AssertionFailed | Raised exc

text \<open>\<^verbatim>\<open>assert c\<close> followed by the rest of the test, and \<^verbatim>\<open>assert k in data\<close>.\<close>

definition py_assert :: "bool \<Rightarrow> test_outcome \<Rightarrow> test_outcome" where
  "py_assert c k = (if c then k else AssertionFailed)"

definition assert_in :: "string \<Rightarrow> pyval \<Rightarrow> test_outcome \<Rightarrow> test_outcome" where
  "assert_in k data rest = (case py_in_str k data of Inl e \<Rightarrow> Raised e | Inr b \<Rightarrow> py_assert b rest)"

text \<open>\<^verbatim>\<open>test_health\<close>: \<^verbatim>\<open>GET /health\<close> returns the handler's dictionary with status 200.\<close>

definition test_health :: "'m env \<Rightarrow> 'm svc \<Rightarrow> test_outcome" where
  "test_health env s =
     (let r = HttpResponse 200 (health env s)
      in py_assert (status r = 200) (assert_in ''status'' (body r) Passed))"

text \<open>
  The upload \<^verbatim>\<open>files={"file": ("hello.m4a", fh)}\<close> sends: the sample's bytes under
  that name, with the content type the client derives from it.
\<close>

definition sample_upload :: "bytes \<Rightarrow> string option \<Rightarrow> upload" where
  "sample_upload data ct = \<lparr>filename = Some ''hello.m4a'', content_type = ct, upload_data = Inr data\<rparr>"

text \<open>
  \<^verbatim>\<open>test_transcribe_with_sample_audio\<close>: \<open>exists\<close> is \<^verbatim>\<open>sample.exists()\<close>;
  on 200 the test reads \<^verbatim>\<open>data.text\<close>, an attribute of the decoded dictionary.
\<close>

definition test_transcribe :: "'m env \<Rightarrow> bool \<Rightarrow> upload \<Rightarrow> 'm svc \<Rightarrow> test_outcome \<times> 'm svc" where
  "test_transcribe env exists u s =
     (if \<not> exists then (AssertionFailed, s)
      else
        (let (r, s') = transcribe_endpoint env u s;
             data = body r
         in (if status r = 200
             then assert_in ''text'' data
                    (case py_attr data ''text'' of
                       Inl e \<Rightarrow> Raised e
                     | Inr v \<Rightarrow> py_assert (v = PStr ''hello'') (assert_in ''segments'' data Passed))
             else py_assert (status r = 503 \<or> status r = 400) Passed, s')))"

subsection \<open>What the tests observe\<close>

lemma pipeline_outcome_Completed:
  "pipeline_outcome env u s = Completed out \<Longrightarrow> \<exists>name res. shape_result name res = Inr out"
  by (auto simp: pipeline_outcome_def sbind_eq_Inr split: option.splits sum.splits if_splits)

lemma transcribe_endpoint_200_body:
  assumes "status (fst (transcribe_endpoint env u s)) = 200"
  shows "\<exists>tx lang segs name. body (fst (transcribe_endpoint env u s)) =
           PDict [(''text'', PStr tx), (''language'', lang), (''segments'', PList segs), (''model'', PStr name)]"
proof -
  from assms obtain out where o: "pipeline_outcome env u s = Completed out"
    and b: "body (fst (transcribe_endpoint env u s)) = out"
    by (cases "pipeline_outcome env u s") (simp_all add: transcribe_endpoint_response)
  from pipeline_outcome_Completed [OF o] b show ?thesis by (auto simp: shape_result_eq_Inr)
qed

lemma test_transcribe_200:
  assumes "status (fst (transcribe_endpoint env u s)) = 200"
  shows "fst (test_transcribe env True u s) = Raised (AttributeError ''object has no attribute text'')"
  using transcribe_endpoint_200_body [OF assms] assms
  by (auto simp: test_transcribe_def assert_in_def py_assert_def Let_def split: prod.splits)

text \<open>
  C24. A successful transcription fails the test with an exception: \<^verbatim>\<open>r.json()\<close>
  is a dictionary, and line 29 reads \<^verbatim>\<open>data.text\<close>, which raises
  \<open>AttributeError\<close>.
\<close>

theorem test_transcribe_success_raises:
  assumes "pipeline_outcome env u s = Completed out"
  shows "fst (test_transcribe env True u s) = Raised (AttributeError ''object has no attribute text'')"
proof -
  from assms have "status (fst (transcribe_endpoint env u s)) = 200"
    by (simp add: transcribe_endpoint_response)
  then show ?thesis by (rule test_transcribe_200)
qed

end
