(* ===== verification/Spec2Isabelle.thy ===== *)
theory Spec2Isabelle
  imports Concurrency TestSuite
begin

text \<open>
  \<^bold>\<open>A verification library for the Whisper transcription service\<close>
  (\<^verbatim>\<open>src/app\<close>: \<^verbatim>\<open>main.py\<close>, \<^verbatim>\<open>transcribe.py\<close>, \<^verbatim>\<open>schemas.py\<close>;
  \<^verbatim>\<open>src/tests/test_api.py\<close>).

  \<^emph>\<open>The program.\<close> A FastAPI application (\<^verbatim>\<open>main.py\<close>) loads a whisper model at
  startup into the global \<^verbatim>\<open>_transcriber\<close>, answers \<^verbatim>\<open>GET /health\<close> from it, and
  answers \<^verbatim>\<open>POST /transcribe\<close> by handing the uploaded bytes to
  \<^verbatim>\<open>Transcriber.transcribe_bytes\<close> (\<^verbatim>\<open>transcribe.py\<close>). That method normalises the
  audio to a 16 kHz mono WAV temporary file (\<^verbatim>\<open>_ensure_wav\<close>, with pydub), runs
  the model on it, reshapes the engine's dictionary (stripped texts, times rounded to
  the millisecond) and deletes the file in a \<^verbatim>\<open>finally\<close> clause. The endpoint maps
  \<^verbatim>\<open>TranscriptionError\<close> to 400 and any other exception to 500. \<^verbatim>\<open>schemas.py\<close>
  declares the response model. The libraries (whisper, pydub, tempfile, os) are not
  part of the repository.

  \<^emph>\<open>The theories.\<close>
  \<^item> \<open>Prelude\<close>: Python exceptions as the datatype \<open>exc\<close> (library exceptions
    \<open>lib_exc\<close> wrapped by \<open>LibError\<close>, so that no library can raise the
    application's \<open>TranscriptionError\<close>), results \<open>exc + 'a\<close>, the sequencing
    \<open>sbind\<close> and the raising comprehension \<open>smap\<close>, with their characterisations
    (collection \<open>ret_iff\<close>) and split rules.
  \<^item> \<open>PyValue\<close>: the Python values the engine returns (\<open>pyval\<close>) and the builtins
    the code applies to them: truthiness and \<open>or\<close>, \<open>dict.get\<close>, iteration,
    \<open>str.strip\<close> (\<open>py_strip\<close>, with \<open>str.isspace\<close> on Latin-1) and \<open>round\<close>
    (\<open>py_round\<close>, half to even on the exact value), and, for the tests, \<open>in\<close>
    with a string (\<open>py_in_str\<close>) and attribute reads (\<open>py_attr\<close>). Lemmas: strip removes exactly the
    surrounding whitespace and is idempotent; rounding stays within half a unit, is
    monotone, lands on the grid and fixes integers.
  \<^item> \<open>Schemas\<close>: \<^verbatim>\<open>Segment\<close> and \<^verbatim>\<open>TranscriptionResponse\<close> as records, and
    validation of a value against them (\<open>validate_segment\<close>,
    \<open>validate_response\<close>); \<open>well_timed\<close>, \<open>on_grid\<close>, \<open>trimmed\<close>.
  \<^item> \<open>Runtime\<close>: the world the code changes (\<open>world\<close>: temporary directory as a map
    from paths to contents, the counter \<open>next_tmp\<close> from which \<open>tempfile\<close> draws
    fresh names, the log, whose levels are ordered as \<^verbatim>\<open>logging\<close>'s numbers by a
    \<open>linorder\<close> instance) and the interface to the libraries (\<open>env\<close>: one field per
    library call, each of which may raise). \<open>tmp_fresh\<close> says no file exists at or
    beyond the counter; \<open>pydub_contract\<close> and \<open>fs_reliable\<close> are the conditions on
    the libraries that some theorems assume.
  \<^item> \<open>Transcriber\<close>: the class \<^verbatim>\<open>Transcriber\<close>: \<open>Transcriber_init\<close>
    (\<^verbatim>\<open>__init__\<close>), \<open>to_mono_16k\<close> and \<open>ensure_wav\<close> (\<^verbatim>\<open>_ensure_wav\<close>),
    \<open>shape_segment\<close> and \<open>shape_result\<close> (the reshaping inside the \<^verbatim>\<open>try\<close>),
    \<open>unlink_tmp\<close> (the \<^verbatim>\<open>finally\<close>) and \<open>transcribe_bytes\<close>. Lemmas: the five
    branches of \<open>ensure_wav\<close>, what each path leaves in the temporary directory, the
    result of \<open>transcribe_bytes\<close> as a function of the library calls only, and the
    reshaping on engine output of the documented shape; the log only grows.
  \<^item> \<open>Service\<close>: \<^verbatim>\<open>main.py\<close>: the state \<open>svc\<close> (the world and
    \<^verbatim>\<open>_transcriber\<close>), \<open>MODEL_NAME\<close>, \<open>startup_event\<close>, \<open>health\<close> and
    \<open>transcribe_endpoint\<close>. The contract of the endpoint is stated abstractly:
    \<open>pipeline_outcome\<close> names the first stage of a request that fails,
    \<open>spec_status\<close> is the status the spec assigns to it, \<open>code_response\<close> the
    response the code gives.
  \<^item> \<open>Lifecycle\<close>: FastAPI's discipline as a step relation \<open>app_step\<close> (startup
    once, then any sequence of requests) and the \<open>reachable\<close> states, with the
    invariants \<open>handle_inv\<close> and \<open>tmp_fresh\<close> proved by rule induction.
  \<^item> \<open>Concurrency\<close>: the endpoint split at its one \<^verbatim>\<open>await\<close>
    (\<open>transcribe_accept\<close>, \<open>transcribe_resume\<close>; their composition is the
    endpoint, \<open>transcribe_endpoint_split\<close>) and the server \<open>conc_step\<close> that
    interleaves accepted requests in any order, with its invariant \<open>conc_inv\<close>.
  \<^item> \<open>TestSuite\<close>: \<^verbatim>\<open>test_api.py\<close>: each test a function of the service state to
    its outcome (\<open>test_health\<close>, \<open>test_transcribe\<close>).
  \<^item> this theory: the properties that span the components, and a concrete environment
    (\<open>demo_env\<close> and its variants) at which every theorem with hypotheses is
    applied.

  \<^emph>\<open>What is proved\<close> (the claims C1--C26). The endpoint refines its abstract
  contract (C1) and agrees with the spec's status codes everywhere except on engine
  failures, which it reports as 400 instead of 500 (C2, C16). Temporary files never
  outlive a request when the file system does not fail (C3, C8), and a successful
  normalisation leaves mono 16 kHz audio under a fresh name (C17); when exporting the
  file raises, the file is left behind, and when deleting it raises, the exception is
  swallowed silently and the request still succeeds (C6, C7). A failed model load is
  permanent and a successful one serves every later request (C4, C5). A 200 response
  is the reshaped output of the engine run on the normalised audio (C9); error
  responses carry only fixed messages (C13, C14, C15). Bodies conform to the declared
  schema, texts are stripped, times are on the millisecond grid within half a
  millisecond of the engine's and keep their order (C10, C11, C12); the declared
  schema is not enforced, so a non-string language is answered 200 with a body that
  does not validate (C18). The constructor returns a transcriber exactly when the
  model loads, always ready, and ignores the device (C19, C20); a falsy
  \<open>segments\<close> gives an empty list (C21). A failed load is logged twice and
  swallowed (C22); every failed request ends its log with a record at \<open>WARNING\<close>
  or above (C23). On every successful transcription the repository's test raises at
  \<^verbatim>\<open>data.text\<close> (C24). Under any interleaving of requests at
  \<^verbatim>\<open>await file.read()\<close> a waiting request always finds the model (C25) and no
  file leaks (C26).

  \<^emph>\<open>Modelling choices.\<close> Floats are their exact rational values; the conversion of
  a rounded result back to the nearest double is not modelled. Strings are Latin-1
  character lists. Dictionaries are association lists (the first binding of a key is
  the one read). No loop of the code is unbounded (the comprehension is a structural
  recursion), so no fuel is needed. \<open>Lifecycle\<close> runs requests one after the
  other; \<open>Concurrency\<close> lets them interleave at the only point where the event loop
  can switch, the \<^verbatim>\<open>await\<close> of the upload (the transcription itself blocks the
  loop). Floats that JSON cannot encode (NaN, infinities) and engine values outside
  \<open>pyval\<close> are not modelled; \<^verbatim>\<open>JSONResponse\<close> would raise on them inside the
  \<^verbatim>\<open>try\<close>, giving a 500.

  \<^emph>\<open>Not modelled.\<close> The libraries themselves (only their interface and the
  contracts named above), HTTP parsing and JSON serialisation by FastAPI/Starlette, the
  log's formatting and handlers (a record is its logger, level, message and exception),
  and pytest itself. \<^verbatim>\<open>test_api.py\<close> does not parse as Python (its last line reads
  \<^verbatim>\<open>(503, 400).:\<close>), so nothing is claimed about a run of the suite; the module's
  client is not entered with \<^verbatim>\<open>with\<close> and would never run the startup handler (a
  finding, not a theorem). \<open>TestSuite\<close> gives line 32 the value of
  \<^verbatim>\<open>in (503, 400)\<close>; only its 200 branch, modelled as written, carries a claim.
\<close>

section \<open>A concrete environment\<close>

definition demo_audio :: audio where
  "demo_audio = \<lparr>channels = 2, frame_rate = 44100, sample_width = 2, pcm = [1, 2, 3, 4]\<rparr>"

definition demo_segment :: pyval where
  "demo_segment = PDict [(''id'', PInt 0), (''start'', PFloat 0), (''end'', PFloat (3/2)),
                         (''text'', PStr '' Hello.'')]"

definition demo_result :: pyval where
  "demo_result = PDict [(''text'', PStr '' Hello.''), (''segments'', PList [demo_segment]),
                        (''language'', PStr ''en'')]"

definition demo_env :: "unit env" where
  "demo_env =
     \<lparr>getenv = (\<lambda>k. None),
      load_model = (\<lambda>n. Inr ()),
      from_file = (\<lambda>d. if d = [] then Inl (LibExc ''CouldntDecodeError'' ''Decoding failed'') else Inr demo_audio),
      set_channels = (\<lambda>n a. Inr (a\<lparr>channels := n\<rparr>)),
      set_frame_rate = (\<lambda>n a. Inr (a\<lparr>frame_rate := n\<rparr>)),
      tmp_error = (\<lambda>p. None),
      export_error = (\<lambda>p a. None),
      run_model = (\<lambda>m c. Inr demo_result),
      unlink_error = (\<lambda>p. None)\<rparr>"

definition demo_oserror :: lib_exc where
  "demo_oserror = LibExc ''OSError'' ''No space left on device''"

definition export_fail_env :: "unit env" where
  "export_fail_env = demo_env\<lparr>export_error := (\<lambda>p a. Some demo_oserror)\<rparr>"

definition unlink_fail_env :: "unit env" where
  "unlink_fail_env = demo_env\<lparr>unlink_error := (\<lambda>p. Some demo_oserror)\<rparr>"

definition engine_fail_env :: "unit env" where
  "engine_fail_env = demo_env\<lparr>run_model := (\<lambda>m c. Inl (LibExc ''RuntimeError'' ''CUDA out of memory''))\<rparr>"

definition load_fail_env :: "unit env" where
  "load_fail_env = demo_env\<lparr>load_model := (\<lambda>n. Inl (LibExc ''RuntimeError'' ''Model base not found''))\<rparr>"

definition demo_world :: world where
  "demo_world = \<lparr>fs = Map.empty, next_tmp = 0, log = []\<rparr>"

definition demo_upload :: upload where
  "demo_upload = \<lparr>filename = Some ''hello.m4a'', content_type = Some ''audio/mp4'', upload_data = Inr [1, 2, 3]\<rparr>"

definition empty_upload :: upload where
  "empty_upload = \<lparr>filename = Some ''empty.wav'', content_type = None, upload_data = Inr []\<rparr>"

definition demo_transcriber :: "unit transcriber" where
  "demo_transcriber = \<lparr>model_name = ''base'', model = (), ready = True\<rparr>"

definition demo_mono :: audio where
  "demo_mono = demo_audio\<lparr>channels := 1, frame_rate := 16000\<rparr>"

definition demo_svc :: "unit svc" where
  "demo_svc = \<lparr>fs = Map.empty, next_tmp = 0, log = [], transcriber_var = Some demo_transcriber\<rparr>"

definition demo_seg_rec :: Segment where
  "demo_seg_rec = \<lparr>seg_start = 0, seg_end = 3/2, seg_text = '' Hello.''\<rparr>"

text \<open>An engine that reports its language as a list, not a string.\<close>

definition list_lang_env :: "unit env" where
  "list_lang_env = demo_env\<lparr>run_model := (\<lambda>m c. Inr (PDict [(''text'', PStr ''hi''), (''language'', PList [PStr ''en''])]))\<rparr>"

text \<open>The service after startup, and after two uploads have been accepted and wait.\<close>

definition demo_started :: "unit svc" where
  "demo_started = startup_event demo_env (init_svc demo_world)"

definition demo_waiting :: "unit svc" where
  "demo_waiting = log_append ''uvicorn.error'' INFO (received_msg empty_upload) None
                    (log_append ''uvicorn.error'' INFO (received_msg demo_upload) None demo_started)"

lemmas demo_defs = demo_env_def demo_audio_def demo_result_def demo_segment_def demo_world_def
  demo_upload_def empty_upload_def demo_transcriber_def demo_mono_def export_fail_env_def
  unlink_fail_env_def engine_fail_env_def load_fail_env_def list_lang_env_def demo_oserror_def demo_svc_def demo_seg_rec_def

lemmas eval_defs = to_mono_16k_def shape_result_def shape_segment_def py_strip_def py_isspace_def
  round_digits_def round_half_even_def py_or_def

section \<open>Properties across the components\<close>

text \<open>
  C9. A 200 response is the engine's output, reshaped, for a run of the loaded model on
  the upload converted to one channel at 16000 Hz (given pydub's contract).
\<close>

theorem success_end_to_end:
  assumes "status (fst (transcribe_endpoint env u s)) = 200" "pydub_contract env"
  shows "\<exists>t a' res. transcriber_var s = Some t \<and> ready t \<and>
           run_model env (model t) (Some (WavFile a')) = Inr res \<and> channels a' = 1 \<and> frame_rate a' = 16000 \<and>
           shape_result (model_name t) res = Inr (body (fst (transcribe_endpoint env u s)))"
proof -
  obtain out where o: "pipeline_outcome env u s = Completed out"
    using assms(1) by (cases "pipeline_outcome env u s") (simp_all add: transcribe_endpoint_response)
  then have b: "body (fst (transcribe_endpoint env u s)) = out"
    by (simp add: transcribe_endpoint_response)
  from o obtain t a a' where t: "transcriber_var s = Some t" "ready t" and a': "to_mono_16k env a = Inr a'"
    and r: "sbind (lib (run_model env (model t) (Some (WavFile a')))) (shape_result (model_name t)) = Inr out"
    by (auto simp: pipeline_outcome_def split: option.splits if_splits sum.splits)
  from to_mono_16k_format [OF assms(2) a'] t r b show ?thesis
    by (auto simp: ret_iff)
qed

text \<open>
  C15. An upload that does not decode as audio is answered 400 with the fixed message,
  and no temporary file is created.
\<close>

theorem unsupported_format_400:
  assumes "is_ready s" "upload_data u = Inr data" "from_file env data = Inl l"
  shows "fst (transcribe_endpoint env u s) = HttpResponse 400 (detail ''Unsupported or corrupt audio format'') \<and>
         fs (snd (transcribe_endpoint env u s)) = fs s"
proof -
  from assms(1) obtain t where t: "transcriber_var s = Some t" "ready t"
    by (auto simp: is_ready_def split: option.splits)
  have "fst (transcribe_endpoint env u s) = HttpResponse 400 (detail ''Unsupported or corrupt audio format'')"
    using t assms(2,3) by (simp add: transcribe_endpoint_response pipeline_outcome_def)
  moreover have "fs (snd (transcribe_endpoint env u s)) = fs s"
    using t assms(2,3)
    by (simp add: transcribe_endpoint_def Let_def transcribe_bytes_wav_error ensure_wav_decode_error)
  ultimately show ?thesis by simp
qed

text \<open>
  C18. The declared response model is not enforced: when the engine's language is not a
  string, \<open>/transcribe\<close> answers 200 with the reshaped result, a body that does not
  validate against the declared \<^verbatim>\<open>TranscriptionResponse\<close>.
\<close>

theorem unvalidated_language_passes:
  assumes "transcriber_var s = Some t" "ready t" "upload_data u = Inr data"
    "from_file env data = Inr a" "to_mono_16k env a = Inr a'"
    "tmp_error env (next_tmp s) = None" "export_error env (next_tmp s) a' = None"
    "run_model env (model t) (Some (WavFile a')) = Inr res" "shape_result (model_name t) res = Inr out"
    "py_get res ''language'' PNone = Inr lang" "pyd_opt_str lang = None"
  shows "fst (transcribe_endpoint env u s) = HttpResponse 200 out \<and> validate_response out = None"
proof -
  have "pipeline_outcome env u s = Completed out"
    using assms(1-9) by (simp add: pipeline_outcome_def ret_iff)
  then have r: "fst (transcribe_endpoint env u s) = HttpResponse 200 out"
    by (simp add: transcribe_endpoint_response)
  from assms(9) obtain tx lang' segs where
    l: "py_get res ''language'' PNone = Inr lang'" and
    o: "out = PDict [(''text'', PStr (py_strip tx)), (''language'', lang'), (''segments'', PList segs),
                     (''model'', PStr (model_name t))]"
    by (auto simp: shape_result_eq_Inr)
  from l assms(10) have "lang' = lang" by simp
  with o assms(11) have "validate_response out = None" by (simp add: pyd_field_def)
  with r show ?thesis by simp
qed

section \<open>Witnesses\<close>

text \<open>Each theorem with hypotheses, applied where its hypotheses hold.\<close>

lemma demo_svc_ready: "is_ready demo_svc"
  by (simp add: is_ready_def demo_defs)

lemma demo_world_fresh: "tmp_fresh demo_world"
  by (simp add: tmp_fresh_def demo_defs)

lemma demo_env_reliable: "fs_reliable demo_env"
  by (simp add: fs_reliable_def demo_defs)

lemma demo_env_pydub: "pydub_contract demo_env"
  by (simp add: pydub_contract_def demo_defs)

lemma demo_reachable:
  "reachable demo_env demo_world
     (Serving, snd (transcribe_endpoint demo_env demo_upload (startup_event demo_env (init_svc demo_world))))"
  by (rule reachable.step [OF reachable.step [OF reachable.init app_step.startup] app_step.transcribe_req])

theorem spec_status_divergence_witness:
  "pipeline_outcome engine_fail_env demo_upload demo_svc = InferenceFailed \<and>
   status (fst (transcribe_endpoint engine_fail_env demo_upload demo_svc)) \<noteq>
     spec_status (pipeline_outcome engine_fail_env demo_upload demo_svc)"
proof -
  have o: "pipeline_outcome engine_fail_env demo_upload demo_svc = InferenceFailed"
    by (simp add: pipeline_outcome_def demo_defs to_mono_16k_def)
  show ?thesis using spec_status_divergence [of engine_fail_env demo_upload demo_svc] o by simp
qed

theorem reachable_no_leak_witness:
  "reachable demo_env demo_world
     (Serving, snd (transcribe_endpoint demo_env demo_upload (startup_event demo_env (init_svc demo_world)))) \<and>
   tmp_fresh demo_world \<and> fs_reliable demo_env \<and>
   fs (snd (transcribe_endpoint demo_env demo_upload (startup_event demo_env (init_svc demo_world)))) = fs demo_world"
  using reachable_no_leak [OF demo_reachable demo_world_fresh demo_env_reliable]
    demo_reachable demo_world_fresh demo_env_reliable by simp

theorem failed_startup_terminal_witness:
  "reachable load_fail_env demo_world (Serving, startup_event load_fail_env (init_svc demo_world)) \<and>
   load_model load_fail_env (MODEL_NAME load_fail_env) = Inl (LibExc ''RuntimeError'' ''Model base not found'') \<and>
   transcribe_endpoint load_fail_env demo_upload (startup_event load_fail_env (init_svc demo_world)) =
     (HttpResponse 503 (detail ''Transcription model not ready''), startup_event load_fail_env (init_svc demo_world))"
proof -
  have r: "reachable load_fail_env demo_world (Serving, startup_event load_fail_env (init_svc demo_world))"
    by (rule reachable.step [OF reachable.init app_step.startup])
  have l: "load_model load_fail_env (MODEL_NAME load_fail_env) = Inl (LibExc ''RuntimeError'' ''Model base not found'')"
    by (simp add: demo_defs)
  show ?thesis using failed_startup_terminal [OF r l, of demo_upload] r l by simp
qed

theorem loaded_model_serves_witness:
  "reachable demo_env demo_world (Serving, startup_event demo_env (init_svc demo_world)) \<and>
   load_model demo_env (MODEL_NAME demo_env) = Inr () \<and>
   health demo_env (startup_event demo_env (init_svc demo_world)) =
     PDict [(''status'', PStr ''ok''), (''model'', PStr (MODEL_NAME demo_env))]"
proof -
  have r: "reachable demo_env demo_world (Serving, startup_event demo_env (init_svc demo_world))"
    by (rule reachable.step [OF reachable.init app_step.startup])
  have l: "load_model demo_env (MODEL_NAME demo_env) = Inr ()"
    by (simp add: demo_defs)
  show ?thesis using loaded_model_serves [OF r l, of demo_upload] r l by simp
qed

theorem export_leak_witness:
  "from_file export_fail_env [1, 2, 3] = Inr demo_audio \<and> to_mono_16k export_fail_env demo_audio = Inr demo_mono \<and>
   tmp_error export_fail_env (next_tmp demo_world) = None \<and>
   export_error export_fail_env (next_tmp demo_world) demo_mono = Some demo_oserror \<and>
   fs (snd (transcribe_bytes export_fail_env demo_transcriber [1, 2, 3] None demo_world)) 0 = Some EmptyFile"
proof -
  have h1: "from_file export_fail_env [1, 2, 3] = Inr demo_audio"
    and h2: "to_mono_16k export_fail_env demo_audio = Inr demo_mono"
    and h3: "tmp_error export_fail_env (next_tmp demo_world) = None"
    and h4: "export_error export_fail_env (next_tmp demo_world) demo_mono = Some demo_oserror"
    by (simp_all add: demo_defs to_mono_16k_def)
  show ?thesis
    using export_leak [OF h1 h2 h3 h4, of demo_transcriber None] h1 h2 h3 h4 by (simp add: demo_defs)
qed

theorem unlink_leak_witness:
  "from_file unlink_fail_env [1, 2, 3] = Inr demo_audio \<and> to_mono_16k unlink_fail_env demo_audio = Inr demo_mono \<and>
   tmp_error unlink_fail_env (next_tmp demo_world) = None \<and>
   export_error unlink_fail_env (next_tmp demo_world) demo_mono = None \<and>
   unlink_error unlink_fail_env (next_tmp demo_world) = Some demo_oserror \<and>
   run_model unlink_fail_env (model demo_transcriber) (Some (WavFile demo_mono)) = Inr demo_result \<and>
   fst (transcribe_bytes unlink_fail_env demo_transcriber [1, 2, 3] None demo_world) =
     Inr (PDict [(''text'', PStr ''Hello.''), (''language'', PStr ''en''),
                 (''segments'', PList [PDict [(''start'', PFloat 0), (''end'', PFloat (3/2)), (''text'', PStr ''Hello.'')]]),
                 (''model'', PStr ''base'')]) \<and>
   fs (snd (transcribe_bytes unlink_fail_env demo_transcriber [1, 2, 3] None demo_world)) 0 = Some (WavFile demo_mono)"
proof -
  have h1: "from_file unlink_fail_env [1, 2, 3] = Inr demo_audio"
    and h2: "to_mono_16k unlink_fail_env demo_audio = Inr demo_mono"
    and h3: "tmp_error unlink_fail_env (next_tmp demo_world) = None"
    and h4: "export_error unlink_fail_env (next_tmp demo_world) demo_mono = None"
    and h5: "unlink_error unlink_fail_env (next_tmp demo_world) = Some demo_oserror"
    and h6: "run_model unlink_fail_env (model demo_transcriber) (Some (WavFile demo_mono)) = Inr demo_result"
    by (simp_all add: demo_defs to_mono_16k_def)
  have h7: "shape_result (model_name demo_transcriber) demo_result =
     Inr (PDict [(''text'', PStr ''Hello.''), (''language'', PStr ''en''),
                 (''segments'', PList [PDict [(''start'', PFloat 0), (''end'', PFloat (3/2)), (''text'', PStr ''Hello.'')]]),
                 (''model'', PStr ''base'')])"
    by (simp add: demo_defs eval_defs)
  show ?thesis
    using unlink_leak [OF h1 h2 h3 h4 h5 h6 h7, of None] h1 h2 h3 h4 h5 h6 by (simp add: demo_defs)
qed

theorem no_leak_witness:
  "tmp_fresh demo_world \<and> (\<forall>a. export_error demo_env (next_tmp demo_world) a = None) \<and>
   unlink_error demo_env (next_tmp demo_world) = None \<and>
   fs (snd (transcribe_bytes demo_env demo_transcriber [1, 2, 3] None demo_world)) = fs demo_world"
proof -
  have h2: "\<forall>a. export_error demo_env (next_tmp demo_world) a = None"
    and h3: "unlink_error demo_env (next_tmp demo_world) = None"
    by (simp_all add: demo_defs)
  show ?thesis
    using no_leak [OF demo_world_fresh h2 h3, of demo_transcriber "[1, 2, 3]" None] demo_world_fresh h2 h3 by simp
qed

theorem success_end_to_end_witness:
  "status (fst (transcribe_endpoint demo_env demo_upload demo_svc)) = 200 \<and> pydub_contract demo_env \<and>
   (\<exists>t a' res. transcriber_var demo_svc = Some t \<and> ready t \<and>
      run_model demo_env (model t) (Some (WavFile a')) = Inr res \<and> channels a' = 1 \<and> frame_rate a' = 16000 \<and>
      shape_result (model_name t) res = Inr (body (fst (transcribe_endpoint demo_env demo_upload demo_svc))))"
proof -
  have h: "status (fst (transcribe_endpoint demo_env demo_upload demo_svc)) = 200"
    by (simp add: transcribe_endpoint_response pipeline_outcome_def demo_defs eval_defs)
  show ?thesis using success_end_to_end [OF h demo_env_pydub] h demo_env_pydub by simp
qed

theorem shape_result_conforms_witness:
  "shape_result ''base'' demo_result =
     Inr (PDict [(''text'', PStr ''Hello.''), (''language'', PStr ''en''),
                 (''segments'', PList [PDict [(''start'', PFloat 0), (''end'', PFloat (3/2)), (''text'', PStr ''Hello.'')]]),
                 (''model'', PStr ''base'')]) \<and>
   py_get demo_result ''language'' PNone = Inr (PStr ''en'') \<and> pyd_opt_str (PStr ''en'') = Some (Some ''en'') \<and>
   validate_response
     (PDict [(''text'', PStr ''Hello.''), (''language'', PStr ''en''),
             (''segments'', PList [PDict [(''start'', PFloat 0), (''end'', PFloat (3/2)), (''text'', PStr ''Hello.'')]]),
             (''model'', PStr ''base'')]) \<noteq> None"
proof -
  have h1: "shape_result ''base'' demo_result =
     Inr (PDict [(''text'', PStr ''Hello.''), (''language'', PStr ''en''),
                 (''segments'', PList [PDict [(''start'', PFloat 0), (''end'', PFloat (3/2)), (''text'', PStr ''Hello.'')]]),
                 (''model'', PStr ''base'')])"
    by (simp add: demo_defs eval_defs)
  have h2: "py_get demo_result ''language'' PNone = Inr (PStr ''en'')"
    by (simp add: demo_defs)
  have h3: "pyd_opt_str (PStr ''en'') = Some (Some ''en'')"
    by simp
  show ?thesis using shape_result_conforms [OF h1 h2 h3] h1 h2 h3 by auto
qed

theorem shape_result_timing_witness:
  "map_of [(''text'', PStr '' Hello.''), (''segments'', PList [demo_segment]), (''language'', PStr ''en'')] ''text'' =
     Some (PStr '' Hello.'') \<and>
   map_of [(''text'', PStr '' Hello.''), (''segments'', PList [demo_segment]), (''language'', PStr ''en'')] ''segments'' =
     Some (PList [demo_segment]) \<and>
   list_all2 (\<lambda>s a. validate_segment s = Some a) [demo_segment] [demo_seg_rec] \<and>
   map_of [(''text'', PStr '' Hello.''), (''segments'', PList [demo_segment]), (''language'', PStr ''en'')] ''language'' =
     Some (PStr ''en'') \<and>
   well_timed [demo_seg_rec] \<and> well_timed (map round_seg [demo_seg_rec])"
proof -
  have h1: "map_of [(''text'', PStr '' Hello.''), (''segments'', PList [demo_segment]), (''language'', PStr ''en'')] ''text'' =
     Some (PStr '' Hello.'')" by simp
  have h2: "map_of [(''text'', PStr '' Hello.''), (''segments'', PList [demo_segment]), (''language'', PStr ''en'')] ''segments'' =
     Some (PList [demo_segment])" by simp
  have h3: "list_all2 (\<lambda>s a. validate_segment s = Some a) [demo_segment] [demo_seg_rec]"
    by (simp add: demo_defs pyd_field_def)
  have h4: "map_of [(''text'', PStr '' Hello.''), (''segments'', PList [demo_segment]), (''language'', PStr ''en'')] ''language'' =
     Some (PStr ''en'')" by simp
  have h5: "well_timed [demo_seg_rec]"
    by (simp add: well_timed_def demo_defs)
  show ?thesis using shape_result_timing [OF h1 h2 h3 h4 h5, of "''base''"] h1 h2 h3 h4 h5 by blast
qed

theorem shape_segment_precision_witness:
  "validate_segment demo_segment = Some demo_seg_rec \<and>
   (\<exists>s' b. shape_segment demo_segment = Inr s' \<and> validate_segment s' = Some b \<and>
      \<bar>seg_start b - seg_start demo_seg_rec\<bar> \<le> 1/2000 \<and> \<bar>seg_end b - seg_end demo_seg_rec\<bar> \<le> 1/2000 \<and>
      on_grid 3 (seg_start b) \<and> on_grid 3 (seg_end b))"
proof -
  have h: "validate_segment demo_segment = Some demo_seg_rec"
    by (simp add: demo_defs pyd_field_def)
  show ?thesis using shape_segment_precision [OF h] h by blast
qed

theorem transcribe_endpoint_500_witness:
  "status (fst (transcribe_endpoint export_fail_env demo_upload demo_svc)) = 500 \<and>
   body (fst (transcribe_endpoint export_fail_env demo_upload demo_svc)) = detail ''Internal server error''"
proof -
  have h: "status (fst (transcribe_endpoint export_fail_env demo_upload demo_svc)) = 500"
    by (simp add: transcribe_endpoint_response pipeline_outcome_def demo_defs to_mono_16k_def)
  show ?thesis using transcribe_endpoint_500 [OF h] h by simp
qed

theorem transcribe_endpoint_400_witness:
  "status (fst (transcribe_endpoint engine_fail_env demo_upload demo_svc)) = 400 \<and>
   (body (fst (transcribe_endpoint engine_fail_env demo_upload demo_svc)) = detail ''Unsupported or corrupt audio format'' \<or>
    body (fst (transcribe_endpoint engine_fail_env demo_upload demo_svc)) = detail ''Transcription failed'')"
proof -
  have h: "status (fst (transcribe_endpoint engine_fail_env demo_upload demo_svc)) = 400"
    by (simp add: transcribe_endpoint_response pipeline_outcome_def demo_defs to_mono_16k_def)
  show ?thesis using transcribe_endpoint_400 [OF h] h by simp
qed

theorem unsupported_format_400_witness:
  "is_ready demo_svc \<and> upload_data empty_upload = Inr [] \<and>
   from_file demo_env [] = Inl (LibExc ''CouldntDecodeError'' ''Decoding failed'') \<and>
   fst (transcribe_endpoint demo_env empty_upload demo_svc) =
     HttpResponse 400 (detail ''Unsupported or corrupt audio format'')"
proof -
  have h2: "upload_data empty_upload = Inr []" by (simp add: demo_defs)
  have h3: "from_file demo_env [] = Inl (LibExc ''CouldntDecodeError'' ''Decoding failed'')"
    by (simp add: demo_defs)
  show ?thesis using unsupported_format_400 [OF demo_svc_ready h2 h3] demo_svc_ready h2 h3 by simp
qed

theorem engine_error_400_witness:
  "ensure_wav engine_fail_env [1, 2, 3] demo_world = (Inr 0, snd (ensure_wav engine_fail_env [1, 2, 3] demo_world)) \<and>
   run_model engine_fail_env (model demo_transcriber)
     (fs (snd (ensure_wav engine_fail_env [1, 2, 3] demo_world)) 0) =
       Inl (LibExc ''RuntimeError'' ''CUDA out of memory'') \<and>
   fst (transcribe_bytes engine_fail_env demo_transcriber [1, 2, 3] None demo_world) =
     Inl (TranscriptionError ''Transcription failed'')"
proof -
  have h1: "ensure_wav engine_fail_env [1, 2, 3] demo_world = (Inr 0, snd (ensure_wav engine_fail_env [1, 2, 3] demo_world))"
    by (simp add: ensure_wav_def demo_defs to_mono_16k_def Let_def)
  have h2: "run_model engine_fail_env (model demo_transcriber)
     (fs (snd (ensure_wav engine_fail_env [1, 2, 3] demo_world)) 0) =
       Inl (LibExc ''RuntimeError'' ''CUDA out of memory'')"
    by (simp add: demo_defs)
  show ?thesis using engine_error_400 [OF h1 h2, of None] h1 h2 by simp
qed

theorem ensure_wav_normalizes_witness:
  "ensure_wav demo_env [1, 2, 3] demo_world = (Inr 0, snd (ensure_wav demo_env [1, 2, 3] demo_world)) \<and>
   pydub_contract demo_env \<and> tmp_fresh demo_world \<and>
   fs (snd (ensure_wav demo_env [1, 2, 3] demo_world)) 0 = Some (WavFile demo_mono)"
proof -
  have h1: "ensure_wav demo_env [1, 2, 3] demo_world = (Inr 0, snd (ensure_wav demo_env [1, 2, 3] demo_world))"
    by (simp add: ensure_wav_def demo_defs to_mono_16k_def Let_def)
  have "fs (snd (ensure_wav demo_env [1, 2, 3] demo_world)) 0 = Some (WavFile demo_mono)"
    by (simp add: ensure_wav_def demo_defs to_mono_16k_def Let_def)
  then show ?thesis
    using ensure_wav_normalizes [OF h1 demo_env_pydub demo_world_fresh] h1 demo_env_pydub demo_world_fresh by simp
qed

theorem falsy_segments_empty_witness:
  "py_get (PDict [(''text'', PStr ''Hi ''), (''segments'', PNone)]) ''text'' (PStr []) = Inr (PStr ''Hi '') \<and>
   py_get (PDict [(''text'', PStr ''Hi ''), (''segments'', PNone)]) ''segments'' PNone = Inr PNone \<and>
   \<not> py_truthy PNone \<and>
   py_get (PDict [(''text'', PStr ''Hi ''), (''segments'', PNone)]) ''language'' PNone = Inr PNone \<and>
   shape_result ''base'' (PDict [(''text'', PStr ''Hi ''), (''segments'', PNone)]) =
     Inr (PDict [(''text'', PStr ''Hi''), (''language'', PNone), (''segments'', PList []),
                 (''model'', PStr ''base'')])"
proof -
  have h1: "py_get (PDict [(''text'', PStr ''Hi ''), (''segments'', PNone)]) ''text'' (PStr []) = Inr (PStr ''Hi '')"
    by simp
  have h2: "py_get (PDict [(''text'', PStr ''Hi ''), (''segments'', PNone)]) ''segments'' PNone = Inr PNone"
    by simp
  have h3: "\<not> py_truthy PNone" by simp
  have h4: "py_get (PDict [(''text'', PStr ''Hi ''), (''segments'', PNone)]) ''language'' PNone = Inr PNone"
    by simp
  have s: "py_strip ''Hi '' = ''Hi''" by (simp add: py_strip_def py_isspace_def)
  show ?thesis using falsy_segments_empty [OF h1 h2 h3 h4, of "''base''"] h1 h2 h3 h4 s by simp
qed

theorem startup_failure_logged_witness:
  "load_model load_fail_env (MODEL_NAME load_fail_env) = Inl (LibExc ''RuntimeError'' ''Model base not found'') \<and>
   transcriber_var (startup_event load_fail_env (init_svc demo_world)) = None \<and>
   length (log (startup_event load_fail_env (init_svc demo_world))) = 4 \<and>
   entry_level (last (log (startup_event load_fail_env (init_svc demo_world)))) = ERROR"
proof -
  have h: "load_model load_fail_env (MODEL_NAME load_fail_env) = Inl (LibExc ''RuntimeError'' ''Model base not found'')"
    by (simp add: demo_defs)
  show ?thesis
    using startup_failure_logged [OF h, of "init_svc demo_world"] h by (simp add: init_svc_def demo_defs)
qed

theorem request_failure_logged_witness:
  "is_ready demo_svc \<and> status (fst (transcribe_endpoint engine_fail_env demo_upload demo_svc)) = 400 \<and>
   (\<exists>l. log (snd (transcribe_endpoint engine_fail_env demo_upload demo_svc)) = log demo_svc @ l \<and> l \<noteq> [] \<and>
        WARNING \<le> entry_level (last l))"
proof -
  have h: "status (fst (transcribe_endpoint engine_fail_env demo_upload demo_svc)) = 400"
    by (simp add: transcribe_endpoint_response pipeline_outcome_def demo_defs to_mono_16k_def)
  then have h': "status (fst (transcribe_endpoint engine_fail_env demo_upload demo_svc)) \<noteq> 200" by simp
  show ?thesis using request_failure_logged [OF demo_svc_ready h'] demo_svc_ready h by simp
qed

theorem test_transcribe_success_raises_witness:
  "pipeline_outcome demo_env demo_upload demo_svc = Completed (body (fst (transcribe_endpoint demo_env demo_upload demo_svc))) \<and>
   fst (test_transcribe demo_env True demo_upload demo_svc) = Raised (AttributeError ''object has no attribute text'')"
proof -
  have s: "status (fst (transcribe_endpoint demo_env demo_upload demo_svc)) = 200"
    by (simp add: transcribe_endpoint_response pipeline_outcome_def demo_defs eval_defs)
  have h: "pipeline_outcome demo_env demo_upload demo_svc = Completed (body (fst (transcribe_endpoint demo_env demo_upload demo_svc)))"
    using s by (cases "pipeline_outcome demo_env demo_upload demo_svc") (simp_all add: transcribe_endpoint_response)
  show ?thesis using test_transcribe_success_raises [OF h] h by simp
qed

lemma demo_started_transcriber: "transcriber_var demo_started = Some demo_transcriber"
  using startup_event_loaded [of demo_env "()" "init_svc demo_world"]
  by (simp add: demo_started_def demo_transcriber_def MODEL_NAME_def demo_env_def)

lemma demo_conc_reachable:
  "conc_reachable demo_env demo_world (Serving, demo_waiting, [demo_upload, empty_upload])"
proof -
  let ?s1 = "log_append ''uvicorn.error'' INFO (received_msg demo_upload) None demo_started"
  have r0: "conc_reachable demo_env demo_world (Serving, demo_started, [])"
    unfolding demo_started_def by (rule conc_reachable.c_step [OF conc_reachable.c_init conc_step.c_startup])
  have "conc_step demo_env (Serving, demo_started, []) (Serving, ?s1, [] @ [demo_upload])"
    by (rule conc_step.c_accept) (simp add: transcribe_accept_def demo_started_transcriber demo_transcriber_def)
  with r0 have r1: "conc_reachable demo_env demo_world (Serving, ?s1, [demo_upload])"
    using conc_reachable.c_step by fastforce
  have "conc_step demo_env (Serving, ?s1, [demo_upload]) (Serving, demo_waiting, [demo_upload] @ [empty_upload])"
    by (rule conc_step.c_accept)
       (simp add: transcribe_accept_def demo_started_transcriber demo_transcriber_def demo_waiting_def)
  with r1 show ?thesis using conc_reachable.c_step by fastforce
qed

lemma demo_conc_resumed:
  "conc_reachable demo_env demo_world
     (Serving, snd (transcribe_resume demo_env empty_upload demo_waiting), [demo_upload])"
  using conc_reachable.c_step [OF demo_conc_reachable conc_step.c_resume [of 1 "[demo_upload, empty_upload]"]]
  by simp

theorem conc_waiting_ready_witness:
  "conc_reachable demo_env demo_world (Serving, demo_waiting, [demo_upload, empty_upload]) \<and>
   demo_upload \<in> set [demo_upload, empty_upload] \<and> is_ready demo_waiting"
  using conc_waiting_ready [OF demo_conc_reachable, of demo_upload] demo_conc_reachable by simp

theorem conc_no_leak_witness:
  "conc_reachable demo_env demo_world
     (Serving, snd (transcribe_resume demo_env empty_upload demo_waiting), [demo_upload]) \<and>
   tmp_fresh demo_world \<and> fs_reliable demo_env \<and>
   fs (snd (transcribe_resume demo_env empty_upload demo_waiting)) = fs demo_world"
  using conc_no_leak [OF demo_conc_resumed demo_world_fresh demo_env_reliable]
    demo_conc_resumed demo_world_fresh demo_env_reliable by simp

theorem unvalidated_language_passes_witness:
  "transcriber_var demo_svc = Some demo_transcriber \<and> upload_data demo_upload = Inr [1, 2, 3] \<and>
   run_model list_lang_env () (Some (WavFile demo_mono)) =
     Inr (PDict [(''text'', PStr ''hi''), (''language'', PList [PStr ''en''])]) \<and>
   fst (transcribe_endpoint list_lang_env demo_upload demo_svc) =
     HttpResponse 200 (PDict [(''text'', PStr ''hi''), (''language'', PList [PStr ''en'']), (''segments'', PList []),
                              (''model'', PStr ''base'')]) \<and>
   validate_response (PDict [(''text'', PStr ''hi''), (''language'', PList [PStr ''en'']), (''segments'', PList []),
                             (''model'', PStr ''base'')]) = None"
proof -
  let ?res = "PDict [(''text'', PStr ''hi''), (''language'', PList [PStr ''en''])]"
  let ?out = "PDict [(''text'', PStr ''hi''), (''language'', PList [PStr ''en'']), (''segments'', PList []),
                     (''model'', PStr ''base'')]"
  have h1: "transcriber_var demo_svc = Some demo_transcriber" and h2: "ready demo_transcriber"
    and h3: "upload_data demo_upload = Inr [1, 2, 3]"
    and h4: "from_file list_lang_env [1, 2, 3] = Inr demo_audio"
    and h5: "to_mono_16k list_lang_env demo_audio = Inr demo_mono"
    and h6: "tmp_error list_lang_env (next_tmp demo_svc) = None"
    and h7: "export_error list_lang_env (next_tmp demo_svc) demo_mono = None"
    and h8: "run_model list_lang_env (model demo_transcriber) (Some (WavFile demo_mono)) = Inr ?res"
    and h10: "py_get ?res ''language'' PNone = Inr (PList [PStr ''en''])"
    and h11: "pyd_opt_str (PList [PStr ''en'']) = None"
    by (simp_all add: demo_defs to_mono_16k_def)
  have h9: "shape_result (model_name demo_transcriber) ?res = Inr ?out"
    by (simp add: demo_defs eval_defs)
  show ?thesis
    using unvalidated_language_passes [OF h1 h2 h3 h4 h5 h6 h7 h8 h9 h10 h11] h1 h3 h8
    by (simp add: demo_defs)
qed

end
